theory Spec2Isabelle
  imports Complex_Main "HOL-Library.Multiset"
begin

section \<open>Conventions of the embedding\<close>

text \<open>
  The analytics engine of \<^verbatim>\<open>backend/app/analyzer.py\<close> computes on IEEE-754 doubles held in
  pandas series and numpy arrays. Here a double is a \<^typ>\<open>real\<close> (exact arithmetic, no
  rounding), a nullable cell of a numeric series is a \<^typ>\<open>real option\<close> with \<open>None\<close> for
  NaN/null, and a library result that is NaN (a correlation of a constant input) is \<open>None\<close>
  as well. A Python dict whose iteration order matters is an association list in insertion
  order; a dict that is only looked up is a map.
\<close>

section \<open>Python, numpy and pandas primitives\<close>

datatype py_error = ValueError | IndexError | KeyError

text \<open>\<^verbatim>\<open>series.dropna()\<close> and \<^verbatim>\<open>series.isna().all()\<close> on a numeric series.\<close>

definition dropna :: "real option list \<Rightarrow> real list" where
  "dropna s = map the (filter (\<lambda>c. c \<noteq> None) s)"

definition isna_all :: "real option list \<Rightarrow> bool" where
  "isna_all s = list_all (\<lambda>c. c = None) s"

text \<open>
  Mean, extrema and standard deviations. Every caller tests that its data is not empty
  before it takes a mean or an extremum, so these are stated for non-empty lists.
  \<^verbatim>\<open>Series.std()\<close> is the sample standard deviation (\<open>ddof = 1\<close>), NaN on fewer than two
  values; \<^verbatim>\<open>np.std\<close> is the population one.
\<close>

definition mean :: "real list \<Rightarrow> real" where
  "mean xs = sum_list xs / real (length xs)"

definition sum_sq_dev :: "real list \<Rightarrow> real" where
  "sum_sq_dev xs = sum_list (map (\<lambda>x. (x - mean xs) * (x - mean xs)) xs)"

definition std_sample :: "real list \<Rightarrow> real option" where
  "std_sample xs =
     (if length xs < 2 then None
      else Some (sqrt (sum_sq_dev xs / real (length xs - 1))))"

definition std_pop :: "real list \<Rightarrow> real" where
  "std_pop xs = sqrt (sum_sq_dev xs / real (length xs))"

definition maximum :: "real list \<Rightarrow> real" where
  "maximum xs = fold max (tl xs) (hd xs)"

definition minimum :: "real list \<Rightarrow> real" where
  "minimum xs = fold min (tl xs) (hd xs)"

text \<open>A comparison with NaN is false.\<close>

definition float_gt :: "real option \<Rightarrow> real \<Rightarrow> bool" where
  "float_gt a b = (case a of None \<Rightarrow> False | Some v \<Rightarrow> v > b)"

text \<open>
  \<^verbatim>\<open>Series.unique()\<close>: the distinct values in the order of their first appearance (a null
  counts as one value).
\<close>

fun uniq :: "'a list \<Rightarrow> 'a list \<Rightarrow> 'a list" where
  "uniq seen [] = []"
| "uniq seen (x # xs) = (if x \<in> set seen then uniq seen xs else x # uniq (x # seen) xs)"

definition unique :: "'a list \<Rightarrow> 'a list" where
  "unique xs = uniq [] xs"

section \<open>The dataset\<close>

text \<open>
  A cell of the frame read from the CSV file is null, a number or a string. A column has a
  name, a dtype and its cells; the frame is the list of its columns in column order. In a
  frame, column names are distinct and all columns have as many cells as the frame has rows.
\<close>

datatype cell = Null | Num real | Str string

datatype dtype = DFloat | DInt | DBool | DObject

record column =
  col_name :: string
  col_dtype :: dtype
  col_cells :: "cell list"

type_synonym dataframe = "column list"

definition wf_frame :: "dataframe \<Rightarrow> bool" where
  "wf_frame df =
     (distinct (map col_name df)
      \<and> list_all (\<lambda>c. length (col_cells c) = length (col_cells (hd df))) df)"

definition nrows :: "dataframe \<Rightarrow> nat" where
  "nrows df = (case df of [] \<Rightarrow> 0 | c # _ \<Rightarrow> length (col_cells c))"

text \<open>\<^verbatim>\<open>self.df[col]\<close> raises \<^verbatim>\<open>KeyError\<close> for a name that is no column.\<close>

definition get_column :: "dataframe \<Rightarrow> string \<Rightarrow> py_error + column" where
  "get_column df name =
     (case find (\<lambda>c. col_name c = name) df of None \<Rightarrow> Inl KeyError | Some c \<Rightarrow> Inr c)"

definition is_numeric_dtype :: "dtype \<Rightarrow> bool" where
  "is_numeric_dtype d = (d \<noteq> DObject)"

definition is_float_dtype :: "dtype \<Rightarrow> bool" where
  "is_float_dtype d = (d = DFloat)"

text \<open>
  \<^verbatim>\<open>pd.to_numeric(series, errors='coerce')\<close>: a number stays, a null gives NaN, a string is
  parsed by pandas' numeric parser, here the parameter \<open>prs\<close>, and gives NaN where it does
  not parse. \<^verbatim>\<open>series.values.astype(float)\<close> on a column of numeric dtype reads its numbers.
\<close>

definition to_numeric :: "(string \<Rightarrow> real option) \<Rightarrow> cell list \<Rightarrow> real option list" where
  "to_numeric prs cells =
     map (\<lambda>c. case c of Null \<Rightarrow> None | Num v \<Rightarrow> Some v | Str s \<Rightarrow> prs s) cells"

definition as_float :: "cell list \<Rightarrow> real option list" where
  "as_float cells = map (\<lambda>c. case c of Num v \<Rightarrow> Some v | _ \<Rightarrow> None) cells"

definition of_float :: "real option \<Rightarrow> cell" where
  "of_float v = (case v of None \<Rightarrow> Null | Some r \<Rightarrow> Num r)"

text \<open>Elementwise \<^verbatim>\<open>series == value\<close>: a null equals nothing, not even a null.\<close>

definition cell_eq :: "cell \<Rightarrow> cell \<Rightarrow> bool" where
  "cell_eq a b = (a \<noteq> Null \<and> a = b)"

section \<open>Data quality analyzer\<close>

text \<open>\<^verbatim>\<open>compute_missing_percentage\<close>: \<open>0 / 0\<close> on an empty series is NaN.\<close>

definition compute_missing_percentage :: "real option list \<Rightarrow> real option" where
  "compute_missing_percentage series =
     (if length series = 0 then None
      else Some (real (length (filter (\<lambda>c. c = None) series)) / real (length series) * 100))"

datatype density_type = Empty | Sparse | Intermittent | Offline | Continuous

record signal_density =
  signal_type :: density_type
  density :: real
  reason :: "string option"
  zero_pct :: "real option"

definition classify_signal_density :: "real option list \<Rightarrow> real option \<Rightarrow> signal_density" where
  "classify_signal_density series missing_pct =
     (let valid_count = length (filter (\<lambda>c. c \<noteq> None) series);
          total_count = length series
      in if total_count = 0
         then \<lparr>signal_type = Empty, density = 0, reason = None, zero_pct = None\<rparr>
         else let dens = real valid_count / real total_count
              in if float_gt missing_pct 70
                 then \<lparr>signal_type = Sparse, density = dens,
                       reason = Some ''high_missing'', zero_pct = None\<rparr>
                 else if float_gt missing_pct 30
                 then \<lparr>signal_type = Intermittent, density = dens,
                       reason = Some ''moderate_missing'', zero_pct = None\<rparr>
                 else let non_null = dropna series;
                          zp = real (length (filter (\<lambda>v. v = 0) non_null))
                                 / real (length non_null) * 100
                      in if length non_null > 0 \<and> zp > 50
                         then \<lparr>signal_type = Offline, density = dens,
                               reason = None, zero_pct = Some zp\<rparr>
                         else \<lparr>signal_type = Continuous, density = dens,
                               reason = None, zero_pct = None\<rparr>)"

text \<open>
  \<^verbatim>\<open>detect_flatline\<close> returns a dict whose keys depend on the branch taken; a key that is
  absent is \<open>None\<close> here. Its parameter \<^verbatim>\<open>threshold_pct\<close> is never read by the body.
\<close>

record flatline_verdict =
  is_flatlined :: bool
  flatline_pct :: "real option"
  constant_value :: "real option"
  cv :: "real option"
  relative_range :: "real option"

definition detect_flatline :: "real option list \<Rightarrow> flatline_verdict" where
  "detect_flatline series =
     (let data = dropna series
      in if length data < 2
         then \<lparr>is_flatlined = False, flatline_pct = Some 0, constant_value = None,
               cv = None, relative_range = None\<rparr>
         else let data_range = maximum data - minimum data;
                  data_std = (case std_sample data of Some s \<Rightarrow> s | None \<Rightarrow> 0);
                  data_mean = \<bar>mean data\<bar>
              in if data_range = 0
                 then \<lparr>is_flatlined = True, flatline_pct = Some 100,
                       constant_value = Some (hd data), cv = None, relative_range = None\<rparr>
                 else let cvar = (if data_mean > 0 then data_std / data_mean else 0);
                          rel = (if data_mean > 0 then data_range / data_mean else data_range)
                      in \<lparr>is_flatlined = (cvar < 0.001 \<and> rel < 0.01), flatline_pct = None,
                          constant_value = None, cv = Some cvar, relative_range = Some rel\<rparr>)"

text \<open>
  \<^verbatim>\<open>compute_sampling_stats\<close>. \<^verbatim>\<open>diff().dropna()\<close> of a sorted series followed by
  \<^verbatim>\<open>intervals[intervals > 0]\<close> keeps the positive successive differences. With a batch
  column the rows of one batch are those of the mask \<^verbatim>\<open>batch_col == batch\<close>; both series
  are columns of one frame, row by row.
\<close>

datatype sampling_stats =
  SamplingUnavailable
| Sampling (mean_interval: real) (std_interval: real) (min_interval: real)
    (max_interval: real) (regularity_score: real) (is_regular: bool)

definition positive_diffs :: "real list \<Rightarrow> real list" where
  "positive_diffs ts = filter (\<lambda>d. d > 0) (map2 (\<lambda>b a. b - a) (tl ts) ts)"

definition batch_intervals :: "real option list \<Rightarrow> cell list \<Rightarrow> cell \<Rightarrow> real list" where
  "batch_intervals time_data batch_col batch =
     (let batch_time =
            sort (dropna (map fst (filter (\<lambda>(t, b). cell_eq b batch) (zip time_data batch_col))))
      in if length batch_time > 1 then positive_diffs batch_time else [])"

definition interval_stats :: "real list \<Rightarrow> sampling_stats" where
  "interval_stats intervals =
     (if length intervals = 0 then SamplingUnavailable
      else let mean_iv = mean intervals;
               std_iv = (if length intervals > 1
                         then (case std_sample intervals of Some s \<Rightarrow> s | None \<Rightarrow> 0)
                         else 0);
               cvar = (if mean_iv > 0 then std_iv / mean_iv else 0);
               regularity = max 0 (1 - min 1 cvar)
           in Sampling mean_iv std_iv (minimum intervals) (maximum intervals)
                regularity (regularity > 0.5))"

definition compute_sampling_stats :: "real option list \<Rightarrow> cell list option \<Rightarrow> sampling_stats" where
  "compute_sampling_stats time_data batch_col =
     (if isna_all time_data \<or> length time_data < 2 then SamplingUnavailable
      else case batch_col of
             Some bc \<Rightarrow>
               (let all_intervals = concat (map (batch_intervals time_data bc) (unique bc))
                in if all_intervals = [] then SamplingUnavailable
                   else interval_stats all_intervals)
           | None \<Rightarrow> interval_stats (positive_diffs (sort (dropna time_data))))"

section \<open>The analyzer object and column-role inference\<close>

text \<open>
  The fields of \<^verbatim>\<open>DatasetAnalyzer\<close> that the analyses read. (\<^verbatim>\<open>standardized_data\<close> is
  written once and never read.) A name used as a condition, as in \<^verbatim>\<open>if self.time_col\<close>,
  is true when it is set and not the empty string.
\<close>

record analyzer =
  df :: dataframe
  time_col :: "string option"
  batch_col :: "string option"
  numeric_cols :: "string list"
  categorical_cols :: "string list"

definition init :: "dataframe \<Rightarrow> analyzer" where
  "init d = \<lparr>df = d, time_col = None, batch_col = None, numeric_cols = [],
             categorical_cols = []\<rparr>"

definition truthy :: "string option \<Rightarrow> bool" where
  "truthy n = (case n of None \<Rightarrow> False | Some s \<Rightarrow> s \<noteq> [])"

text \<open>
  \<^verbatim>\<open>col.lower().strip()\<close> on the bytes of an ASCII name, and \<^verbatim>\<open>kw in col_lower\<close>
  (substring containment).
\<close>

definition lower_char :: "char \<Rightarrow> char" where
  "lower_char c =
     (let n = (of_char c :: nat) in if 65 \<le> n \<and> n \<le> 90 then char_of (n + 32) else c)"

definition lower :: "string \<Rightarrow> string" where
  "lower s = map lower_char s"

definition is_space :: "char \<Rightarrow> bool" where
  "is_space c = (let n = (of_char c :: nat) in (9 \<le> n \<and> n \<le> 13) \<or> (28 \<le> n \<and> n \<le> 32))"

definition strip :: "string \<Rightarrow> string" where
  "strip s = rev (dropWhile is_space (rev (dropWhile is_space s)))"

fun starts_with :: "string \<Rightarrow> string \<Rightarrow> bool" where
  "starts_with [] s = True"
| "starts_with (k # ks) [] = False"
| "starts_with (k # ks) (c # cs) = (k = c \<and> starts_with ks cs)"

fun contains :: "string \<Rightarrow> string \<Rightarrow> bool" where
  "contains kw [] = (kw = [])"
| "contains kw (c # cs) = (starts_with kw (c # cs) \<or> contains kw cs)"

definition time_keywords :: "string list" where
  "time_keywords =
     [''time'', ''timestamp'', ''date'', ''hour'', ''minute'', ''t'', ''elapsed'', ''duration'']"

definition batch_keywords :: "string list" where
  "batch_keywords =
     [''batch'', ''run'', ''experiment'', ''lot'', ''id'', ''sample'', ''replicate'']"

definition has_batch_keyword :: "string \<Rightarrow> bool" where
  "has_batch_keyword col =
     (let col_lower = strip (lower col) in list_ex (\<lambda>kw. contains kw col_lower) batch_keywords)"

definition has_time_keyword :: "string \<Rightarrow> bool" where
  "has_time_keyword col =
     (let col_lower = strip (lower col)
      in list_ex (\<lambda>kw. kw = col_lower \<or> contains kw col_lower) time_keywords)"

text \<open>
  \<^verbatim>\<open>_is_batch_like\<close>: \<^verbatim>\<open>nunique()\<close> and \<^verbatim>\<open>value_counts()\<close> count the non-null values.
  The test \<open>unique_count > 1\<close> makes the list of counts non-empty where its minimum is taken.
\<close>

definition value_counts :: "cell list \<Rightarrow> nat list" where
  "value_counts cells =
     map (\<lambda>v. length (filter (\<lambda>c. c = v) cells)) (unique (filter (\<lambda>c. c \<noteq> Null) cells))"

definition is_batch_like :: "nat \<Rightarrow> column \<Rightarrow> bool" where
  "is_batch_like total_count c =
     (if is_float_dtype (col_dtype c) then False
      else let unique_count = length (unique (filter (\<lambda>x. x \<noteq> Null) (col_cells c)))
           in if real unique_count < real total_count * 0.1 \<and> unique_count > 1
              then (let counts = value_counts (col_cells c)
                    in fold min (tl counts) (hd counts) > 5)
              else False)"

text \<open>
  \<^verbatim>\<open>_is_monotonic_numeric\<close>: the share of non-negative successive differences of the
  parsed, non-null values must exceed 0.95.
\<close>

definition is_monotonic_numeric :: "(string \<Rightarrow> real option) \<Rightarrow> column \<Rightarrow> bool" where
  "is_monotonic_numeric prs c =
     (let data = dropna (to_numeric prs (col_cells c))
      in if length data < 2 then False
         else let diffs = map2 (\<lambda>b a. b - a) (tl data) data
              in real (length (filter (\<lambda>d. d \<ge> 0) diffs)) / real (length diffs) > 0.95)"

text \<open>
  The coercion loop of \<^verbatim>\<open>_infer_columns\<close>: a column of non-numeric dtype other than the
  batch column is replaced by its parsed values when more than half of the rows parse. The
  new dtype is \<^verbatim>\<open>float64\<close> or \<^verbatim>\<open>int64\<close>; only \<^verbatim>\<open>is_numeric_dtype\<close> reads it afterwards.
\<close>

definition coerce_column ::
  "(string \<Rightarrow> real option) \<Rightarrow> nat \<Rightarrow> string option \<Rightarrow> column \<Rightarrow> column" where
  "coerce_column prs n batch c =
     (if Some (col_name c) = batch then c
      else if is_numeric_dtype (col_dtype c) then c
      else let converted = to_numeric prs (col_cells c)
           in if real (length (filter (\<lambda>v. v \<noteq> None) converted)) > real n * 0.5
              then c\<lparr>col_dtype := DFloat, col_cells := map of_float converted\<rparr>
              else c)"

text \<open>
  \<^verbatim>\<open>_infer_columns\<close>, one definition for each of its loops. Each of the two batch loops
  and the time loop stops at the first column that qualifies, in column order, and does
  nothing when the role is already set.
\<close>

definition infer_batch_by_name :: "analyzer \<Rightarrow> analyzer" where
  "infer_batch_by_name st =
     (if batch_col st = None
      then (case find (\<lambda>c. has_batch_keyword (col_name c)) (df st) of
              Some c \<Rightarrow> st\<lparr>batch_col := Some (col_name c)\<rparr>
            | None \<Rightarrow> st)
      else st)"

definition infer_batch_by_pattern :: "analyzer \<Rightarrow> analyzer" where
  "infer_batch_by_pattern st =
     (if batch_col st = None
      then (case find (is_batch_like (nrows (df st))) (df st) of
              Some c \<Rightarrow> st\<lparr>batch_col := Some (col_name c)\<rparr>
            | None \<Rightarrow> st)
      else st)"

definition coerce_columns :: "(string \<Rightarrow> real option) \<Rightarrow> analyzer \<Rightarrow> analyzer" where
  "coerce_columns prs st =
     st\<lparr>df := map (coerce_column prs (nrows (df st)) (batch_col st)) (df st)\<rparr>"

definition time_candidate :: "(string \<Rightarrow> real option) \<Rightarrow> string option \<Rightarrow> column \<Rightarrow> bool" where
  "time_candidate prs batch c =
     (Some (col_name c) \<noteq> batch \<and> has_time_keyword (col_name c)
      \<and> (is_numeric_dtype (col_dtype c) \<or> is_monotonic_numeric prs c))"

definition infer_time :: "(string \<Rightarrow> real option) \<Rightarrow> analyzer \<Rightarrow> analyzer" where
  "infer_time prs st =
     (if time_col st = None
      then (case find (time_candidate prs (batch_col st)) (df st) of
              Some c \<Rightarrow> st\<lparr>time_col := Some (col_name c)\<rparr>
            | None \<Rightarrow> st)
      else st)"

definition classify_remaining :: "analyzer \<Rightarrow> analyzer" where
  "classify_remaining st =
     (let rest = filter (\<lambda>c. Some (col_name c) \<noteq> time_col st \<and> Some (col_name c) \<noteq> batch_col st)
                   (df st)
      in st\<lparr>numeric_cols := numeric_cols st
               @ map col_name (filter (\<lambda>c. is_numeric_dtype (col_dtype c)) rest),
            categorical_cols := categorical_cols st
               @ map col_name (filter (\<lambda>c. \<not> is_numeric_dtype (col_dtype c)) rest)\<rparr>)"

definition infer_columns :: "(string \<Rightarrow> real option) \<Rightarrow> analyzer \<Rightarrow> analyzer" where
  "infer_columns prs st =
     classify_remaining (infer_time prs (coerce_columns prs
       (infer_batch_by_pattern (infer_batch_by_name st))))"

text \<open>The batch column that the two batch loops choose on a fresh analyzer.\<close>

definition batch_of :: "dataframe \<Rightarrow> string option" where
  "batch_of d = batch_col (infer_batch_by_pattern (infer_batch_by_name (init d)))"

section \<open>The quality report\<close>

record series_stats =
  stats_mean :: "real option"
  stats_std :: "real option option"
  stats_min :: "real option"
  stats_max :: "real option"

record variable_quality =
  variable :: string
  missing_pct :: "real option"
  q_density :: signal_density
  q_flatline :: flatline_verdict
  q_sampling :: sampling_stats
  q_stats :: series_stats

datatype quality_flag =
  NoData | HighMissingData | ModerateMissingData | IrregularSampling
| FlatlinedSignals nat | OfflineSignals nat

record overall_quality =
  score :: real
  flags :: "quality_flag list"

record quality_report =
  variables :: "variable_quality list"
  overall :: overall_quality

text \<open>
  The \<^verbatim>\<open>"stats"\<close> block: each field is \<^verbatim>\<open>None\<close> when the series is all null. The sample
  standard deviation of a single value is NaN, which is \<open>Some None\<close> here.
\<close>

definition compute_stats :: "real option list \<Rightarrow> series_stats" where
  "compute_stats series =
     \<lparr>stats_mean = (if \<not> isna_all series then Some (mean (dropna series)) else None),
      stats_std = (if \<not> isna_all series then Some (std_sample (dropna series)) else None),
      stats_min = (if \<not> isna_all series then Some (minimum (dropna series)) else None),
      stats_max = (if \<not> isna_all series then Some (maximum (dropna series)) else None)\<rparr>"

text \<open>The body of the loop of \<^verbatim>\<open>_analyze_quality\<close> for one column.\<close>

definition variable_entry ::
  "string \<Rightarrow> real option list \<Rightarrow> real option list \<Rightarrow> cell list option \<Rightarrow> variable_quality" where
  "variable_entry col series time_series batch_series =
     (let mp = compute_missing_percentage series
      in \<lparr>variable = col, missing_pct = mp,
          q_density = classify_signal_density series mp,
          q_flatline = detect_flatline series,
          q_sampling = compute_sampling_stats time_series batch_series,
          q_stats = compute_stats series\<rparr>)"

fun quality_loop ::
  "dataframe \<Rightarrow> real option list \<Rightarrow> cell list option \<Rightarrow> string list
     \<Rightarrow> py_error + variable_quality list" where
  "quality_loop d ts bs [] = Inr []"
| "quality_loop d ts bs (col # cols) =
     (case get_column d col of
        Inl e \<Rightarrow> Inl e
      | Inr c \<Rightarrow>
          (case quality_loop d ts bs cols of
             Inl e \<Rightarrow> Inl e
           | Inr qs \<Rightarrow> Inr (variable_entry col (as_float (col_cells c)) ts bs # qs)))"

text \<open>\<^verbatim>\<open>np.mean\<close> of the missing percentages is NaN as soon as one of them is.\<close>

definition float_mean :: "real option list \<Rightarrow> real option" where
  "float_mean vs = (if list_ex (\<lambda>v. v = None) vs then None else Some (mean (map the vs)))"

definition compute_overall_quality :: "variable_quality list \<Rightarrow> overall_quality" where
  "compute_overall_quality qs =
     (if qs = [] then \<lparr>score = 0, flags = [NoData]\<rparr>
      else let avg_missing = float_mean (map missing_pct qs);
               (s1, f1) = (if float_gt avg_missing 20 then (100 - 20, [HighMissingData])
                           else if float_gt avg_missing 5 then (100 - 5, [ModerateMissingData])
                           else (100, []));
               (s2, f2) = (case q_sampling (hd qs) of
                             Sampling m s lo hi reg r \<Rightarrow>
                               if reg < 0.3 then (s1 - 10, f1 @ [IrregularSampling]) else (s1, f1)
                           | SamplingUnavailable \<Rightarrow> (s1, f1));
               flatline_count = length (filter (\<lambda>q. is_flatlined (q_flatline q)) qs);
               (s3, f3) = (if flatline_count > 0
                           then (s2 - 3 * real (min flatline_count 5),
                                 f2 @ [FlatlinedSignals flatline_count])
                           else (s2, f2));
               offline_count = length (filter (\<lambda>q. signal_type (q_density q) = Offline) qs);
               f4 = (if offline_count > 0 then f3 @ [OfflineSignals offline_count] else f3)
           in \<lparr>score = max 0 (min 100 s3), flags = f4\<rparr>)"

text \<open>
  \<^verbatim>\<open>_analyze_quality\<close>: the time series is the parsed time column, or the row numbers when
  there is no time column; the batch series is the batch column, if any.
\<close>

definition quality_time_series ::
  "(string \<Rightarrow> real option) \<Rightarrow> analyzer \<Rightarrow> py_error + real option list" where
  "quality_time_series prs st =
     (if truthy (time_col st)
      then (case get_column (df st) (the (time_col st)) of
              Inl e \<Rightarrow> Inl e
            | Inr c \<Rightarrow> Inr (to_numeric prs (col_cells c)))
      else Inr (map (\<lambda>i. Some (real i)) [0..<nrows (df st)]))"

definition quality_batch_series :: "analyzer \<Rightarrow> py_error + cell list option" where
  "quality_batch_series st =
     (if truthy (batch_col st)
      then (case get_column (df st) (the (batch_col st)) of
              Inl e \<Rightarrow> Inl e
            | Inr c \<Rightarrow> Inr (Some (col_cells c)))
      else Inr None)"

definition analyze_quality :: "(string \<Rightarrow> real option) \<Rightarrow> analyzer \<Rightarrow> py_error + quality_report" where
  "analyze_quality prs st =
     (case quality_time_series prs st of
        Inl e \<Rightarrow> Inl e
      | Inr ts \<Rightarrow>
          (case quality_batch_series st of
             Inl e \<Rightarrow> Inl e
           | Inr bs \<Rightarrow>
               (case quality_loop (df st) ts bs (numeric_cols st) of
                  Inl e \<Rightarrow> Inl e
                | Inr qs \<Rightarrow> Inr \<lparr>variables = qs, overall = compute_overall_quality qs\<rparr>)))"

section \<open>Correlation and regression (scipy.stats)\<close>

text \<open>
  \<^verbatim>\<open>stats.pearsonr\<close>: the inputs must have the same length, at least 2, else it raises
  \<^verbatim>\<open>ValueError\<close>; a constant input gives NaN; otherwise the normalized dot product of the
  centered inputs, clipped to \<open>[-1, 1]\<close>. The p-values of \<^verbatim>\<open>pearsonr\<close>, \<^verbatim>\<open>spearmanr\<close> and
  \<^verbatim>\<open>linregress\<close> (tail probabilities of Student's t) are left out: no analysis reads
  them, they are only copied to the output.
\<close>

definition dot :: "real list \<Rightarrow> real list \<Rightarrow> real" where
  "dot xs ys = sum_list (map2 (\<lambda>a b. a * b) xs ys)"

definition centered :: "real list \<Rightarrow> real list" where
  "centered xs = map (\<lambda>x. x - mean xs) xs"

definition is_constant :: "real list \<Rightarrow> bool" where
  "is_constant xs = list_all (\<lambda>x. x = hd xs) xs"

definition clip :: "real \<Rightarrow> real" where
  "clip r = max (- 1) (min 1 r)"

definition pearson_stat :: "real list \<Rightarrow> real list \<Rightarrow> real option" where
  "pearson_stat xs ys =
     (if is_constant xs \<or> is_constant ys then None
      else let xm = centered xs; ym = centered ys
           in Some (clip (dot xm ym / (sqrt (dot xm xm) * sqrt (dot ym ym)))))"

definition pearsonr :: "real list \<Rightarrow> real list \<Rightarrow> py_error + real option" where
  "pearsonr xs ys =
     (if length xs \<noteq> length ys \<or> length xs < 2 then Inl ValueError
      else Inr (pearson_stat xs ys))"

text \<open>
  \<^verbatim>\<open>stats.spearmanr\<close>: the Pearson correlation of the ranks, ties getting the average of
  their ranks.
\<close>

definition rankdata :: "real list \<Rightarrow> real list" where
  "rankdata xs =
     map (\<lambda>x. real (length (filter (\<lambda>y. y < x) xs))
               + (real (length (filter (\<lambda>y. y = x) xs)) + 1) / 2) xs"

definition spearmanr :: "real list \<Rightarrow> real list \<Rightarrow> py_error + real option" where
  "spearmanr xs ys = pearsonr (rankdata xs) (rankdata ys)"


section \<open>Relationship analyzer\<close>

datatype correlation =
  CorrUnavailable
| Correlation (pearson_r: "real option") (spearman_r: "real option") (n_samples: nat)

text \<open>
  \<^verbatim>\<open>mask = ~(np.isnan(x) | np.isnan(y))\<close> and \<^verbatim>\<open>x[mask], y[mask]\<close>. Arrays of different
  lengths raise: \<^verbatim>\<open>ValueError\<close> when they do not broadcast, \<^verbatim>\<open>IndexError\<close> when one of
  them has length 1 and the mask has the length of the other.
\<close>

definition shape_error :: "'a list \<Rightarrow> 'b list \<Rightarrow> py_error option" where
  "shape_error x y =
     (if length x = length y then None
      else if length x = 1 \<or> length y = 1 then Some IndexError
      else Some ValueError)"

definition clean_pairs :: "real option list \<Rightarrow> real option list \<Rightarrow> (real \<times> real) list" where
  "clean_pairs x y =
     map (\<lambda>(a, b). (the a, the b)) (filter (\<lambda>(a, b). a \<noteq> None \<and> b \<noteq> None) (zip x y))"

definition compute_correlations ::
  "real option list \<Rightarrow> real option list \<Rightarrow> py_error + correlation" where
  "compute_correlations x y =
     (case shape_error x y of
        Some e \<Rightarrow> Inl e
      | None \<Rightarrow>
          (let x_clean = map fst (clean_pairs x y); y_clean = map snd (clean_pairs x y)
           in if length x_clean < 5 then Inr CorrUnavailable
              else (case pearsonr x_clean y_clean of
                      Inl e \<Rightarrow> Inl e
                    | Inr pr \<Rightarrow>
                        (case spearmanr x_clean y_clean of
                           Inl e \<Rightarrow> Inl e
                         | Inr sr \<Rightarrow> Inr (Correlation pr sr (length x_clean))))))"

record lag_entry =
  lag :: int
  lag_correlation :: "real option"

datatype lagged =
  LaggedUnavailable
| Lagged (best_lag: int) (best_correlation: real) (lag_profile: "lag_entry list")

text \<open>
  The slices of the lag loop: \<^verbatim>\<open>x_clean[:lag], y_clean[-lag:]\<close> for a negative lag,
  \<^verbatim>\<open>x_clean[lag:], y_clean[:-lag]\<close> for a positive one.
\<close>

definition shifted :: "real list \<Rightarrow> real list \<Rightarrow> int \<Rightarrow> real list \<times> real list" where
  "shifted xc yc l =
     (if l < 0 then (take (nat (int (length xc) + l)) xc, drop (nat (- l)) yc)
      else if l > 0 then (drop (nat l) xc, take (nat (int (length yc) - l)) yc)
      else (xc, yc))"

text \<open>
  One iteration of the lag loop on the state \<open>(best_lag, best_corr, lag_results)\<close>. The test
  \<^verbatim>\<open>abs(r) > abs(best_corr)\<close> is false for a NaN \<open>r\<close>.
\<close>

definition lag_step ::
  "real list \<Rightarrow> real list \<Rightarrow> int \<times> real \<times> lag_entry list \<Rightarrow> int
     \<Rightarrow> py_error + (int \<times> real \<times> lag_entry list)" where
  "lag_step xc yc st l =
     (case st of (bl, bc, res) \<Rightarrow>
        (let xs = fst (shifted xc yc l); ys = snd (shifted xc yc l)
         in if length xs < 5 then Inr (bl, bc, res)
            else (case pearsonr xs ys of
                    Inl e \<Rightarrow> Inl e
                  | Inr r \<Rightarrow>
                      (let res' = res @ [\<lparr>lag = l, lag_correlation = r\<rparr>]
                       in case r of
                            None \<Rightarrow> Inr (bl, bc, res')
                          | Some v \<Rightarrow>
                              if \<bar>v\<bar> > \<bar>bc\<bar> then Inr (l, v, res') else Inr (bl, bc, res')))))"

fun lag_loop ::
  "real list \<Rightarrow> real list \<Rightarrow> int list \<Rightarrow> int \<times> real \<times> lag_entry list
     \<Rightarrow> py_error + (int \<times> real \<times> lag_entry list)" where
  "lag_loop xc yc [] st = Inr st"
| "lag_loop xc yc (l # ls) st =
     (case lag_step xc yc st l of Inl e \<Rightarrow> Inl e | Inr st' \<Rightarrow> lag_loop xc yc ls st')"

definition compute_lagged_correlation ::
  "real option list \<Rightarrow> real option list \<Rightarrow> int \<Rightarrow> py_error + lagged" where
  "compute_lagged_correlation x y max_lag =
     (case shape_error x y of
        Some e \<Rightarrow> Inl e
      | None \<Rightarrow>
          (let x_clean = map fst (clean_pairs x y); y_clean = map snd (clean_pairs x y)
           in if int (length x_clean) < max_lag + 5 then Inr LaggedUnavailable
              else (case lag_loop x_clean y_clean [- max_lag..max_lag] (0, 0, []) of
                      Inl e \<Rightarrow> Inl e
                    | Inr (bl, bc, res) \<Rightarrow> Inr (Lagged bl bc res))))"

text \<open>
  \<^verbatim>\<open>compute_relationship_stability\<close>: \<^verbatim>\<open>np.nanmean\<close> and \<^verbatim>\<open>np.nanstd\<close> skip the NaN
  entries and are NaN when nothing is left; Python's \<^verbatim>\<open>min(1, q)\<close> is 1 for a NaN \<open>q\<close>.
\<close>

datatype stability =
  StabilityUnavailable
| Stability (mean_correlation: "real option") (std_correlation: "real option")
    (consistency_score: real) (is_stable: bool)

definition compute_relationship_stability :: "real option list \<Rightarrow> stability" where
  "compute_relationship_stability correlations_by_batch =
     (if length correlations_by_batch < 2 then StabilityUnavailable
      else let corrs = dropna correlations_by_batch;
               mean_corr = (if corrs = [] then None else Some (mean corrs));
               std_corr = (if corrs = [] then None else Some (std_pop corrs));
               consistency =
                 (case (mean_corr, std_corr) of
                    (Some m, Some s) \<Rightarrow> 1 - min 1 (s / (\<bar>m\<bar> + 0.01))
                  | _ \<Rightarrow> 1 - 1)
           in Stability mean_corr std_corr consistency (consistency > 0.7))"

record relationship =
  var_x :: string
  var_y :: string
  correlation :: correlation
  lagged_correlation :: lagged
  cross_batch_stability :: stability

text \<open>
  The rows of one batch, \<^verbatim>\<open>self.df[self.df[self.batch_col] == batch]\<close>, and the loop that
  collects the per-batch Pearson coefficients of a pair.
\<close>

definition batch_rows :: "cell list \<Rightarrow> cell \<Rightarrow> 'a list \<Rightarrow> 'a list" where
  "batch_rows bcol batch xs = map fst (filter (\<lambda>(v, b). cell_eq b batch) (zip xs bcol))"

fun batch_corrs ::
  "cell list \<Rightarrow> real option list \<Rightarrow> real option list \<Rightarrow> cell list
     \<Rightarrow> py_error + real option list" where
  "batch_corrs bcol x y [] = Inr []"
| "batch_corrs bcol x y (b # bs) =
     (case compute_correlations (batch_rows bcol b x) (batch_rows bcol b y) of
        Inl e \<Rightarrow> Inl e
      | Inr c \<Rightarrow>
          (case batch_corrs bcol x y bs of
             Inl e \<Rightarrow> Inl e
           | Inr rs \<Rightarrow>
               Inr (case c of CorrUnavailable \<Rightarrow> rs | Correlation pr sr n \<Rightarrow> pr # rs)))"

definition pair_stability ::
  "analyzer \<Rightarrow> real option list \<Rightarrow> real option list \<Rightarrow> py_error + stability" where
  "pair_stability st x y =
     (if truthy (batch_col st)
      then (case get_column (df st) (the (batch_col st)) of
              Inl e \<Rightarrow> Inl e
            | Inr bc \<Rightarrow>
                (case batch_corrs (col_cells bc) x y (unique (col_cells bc)) of
                   Inl e \<Rightarrow> Inl e
                 | Inr rs \<Rightarrow>
                     Inr (if length rs \<ge> 2 then compute_relationship_stability rs
                          else StabilityUnavailable)))
      else Inr StabilityUnavailable)"

text \<open>
  The body of the pair loop of \<^verbatim>\<open>_analyze_relationships\<close>: \<open>None\<close> when the pair is
  skipped (\<^verbatim>\<open>continue\<close>) because its correlation is not available.
\<close>

definition analyze_pair :: "analyzer \<Rightarrow> string \<Rightarrow> string \<Rightarrow> py_error + relationship option" where
  "analyze_pair st col_x col_y =
     (case get_column (df st) col_x of
        Inl e \<Rightarrow> Inl e
      | Inr cx \<Rightarrow>
      (case get_column (df st) col_y of
        Inl e \<Rightarrow> Inl e
      | Inr cy \<Rightarrow>
      (let x = as_float (col_cells cx); y = as_float (col_cells cy)
       in case compute_correlations x y of
            Inl e \<Rightarrow> Inl e
          | Inr CorrUnavailable \<Rightarrow> Inr None
          | Inr corr \<Rightarrow>
          (case compute_lagged_correlation x y 5 of
             Inl e \<Rightarrow> Inl e
           | Inr lagged \<Rightarrow>
           (case pair_stability st x y of
              Inl e \<Rightarrow> Inl e
            | Inr stab \<Rightarrow>
                Inr (Some \<lparr>var_x = col_x, var_y = col_y, correlation = corr,
                           lagged_correlation = lagged, cross_batch_stability = stab\<rparr>))))))"

text \<open>
  \<^verbatim>\<open>for i, col_x in enumerate(cols): for col_y in cols[i+1:]\<close> visits the pairs of
  positions \<open>i < j\<close> in this order.
\<close>

fun pairs :: "'a list \<Rightarrow> ('a \<times> 'a) list" where
  "pairs [] = []"
| "pairs (x # xs) = map (Pair x) xs @ pairs xs"

fun relationship_loop :: "analyzer \<Rightarrow> (string \<times> string) list \<Rightarrow> py_error + relationship list" where
  "relationship_loop st [] = Inr []"
| "relationship_loop st ((cx, cy) # ps) =
     (case analyze_pair st cx cy of
        Inl e \<Rightarrow> Inl e
      | Inr entry \<Rightarrow>
          (case relationship_loop st ps of
             Inl e \<Rightarrow> Inl e
           | Inr rels \<Rightarrow> Inr (case entry of None \<Rightarrow> rels | Some r \<Rightarrow> r # rels)))"

text \<open>
  \<^verbatim>\<open>relationships.sort(key=..., reverse=True)\<close>. The key is \<open>|r|\<close>, NaN when \<open>r\<close> is. Python's
  sort compares keys with \<open><\<close> only, and \<open><\<close> is false when a side is NaN. With
  \<^verbatim>\<open>reverse=True\<close> the list is reversed, sorted stably in ascending order and reversed
  again. The ascending sort is stated in the two cases where its result does not depend on
  how Python's sort finds and merges runs. When no key is NaN the result is the stably
  sorted list, which is unique; an insertion sort computes it. When a key is NaN and no key
  of the list is smaller than its predecessor, Python finds one ascending run that covers
  the list and returns the list as it is. In the remaining case, a NaN key and a key
  smaller than its predecessor, the result is not modelled: the value is \<open>None\<close>.
\<close>

definition float_lt :: "real option \<Rightarrow> real option \<Rightarrow> bool" where
  "float_lt a b = (case (a, b) of (Some u, Some v) \<Rightarrow> u < v | _ \<Rightarrow> False)"

fun insort_py :: "('a \<Rightarrow> real option) \<Rightarrow> 'a \<Rightarrow> 'a list \<Rightarrow> 'a list" where
  "insort_py f x [] = [x]"
| "insort_py f x (y # ys) =
     (if float_lt (f y) (f x) then y # insort_py f x ys else x # y # ys)"

definition sort_py :: "('a \<Rightarrow> real option) \<Rightarrow> 'a list \<Rightarrow> 'a list" where
  "sort_py f xs = foldr (insort_py f) xs []"

fun ascending_run :: "real option list \<Rightarrow> bool" where
  "ascending_run (a # b # ks) = (\<not> float_lt b a \<and> ascending_run (b # ks))"
| "ascending_run ks = True"

definition sort_ascending_py :: "('a \<Rightarrow> real option) \<Rightarrow> 'a list \<Rightarrow> 'a list option" where
  "sort_ascending_py f xs =
     (if list_all (\<lambda>x. f x \<noteq> None) xs then Some (sort_py f xs)
      else if ascending_run (map f xs) then Some xs
      else None)"

definition sort_reverse_py :: "('a \<Rightarrow> real option) \<Rightarrow> 'a list \<Rightarrow> 'a list option" where
  "sort_reverse_py f xs = map_option rev (sort_ascending_py f (rev xs))"

definition strength :: "relationship \<Rightarrow> real option" where
  "strength r =
     (case correlation r of
        Correlation pr sr n \<Rightarrow> map_option abs pr
      | CorrUnavailable \<Rightarrow> Some 0)"

text \<open>
  \<^verbatim>\<open>_analyze_relationships\<close>. Its value is \<open>Inr None\<close> where the sort is not modelled.
\<close>

definition analyze_relationships :: "analyzer \<Rightarrow> py_error + relationship list option" where
  "analyze_relationships st =
     (if length (numeric_cols st) < 2 then Inr (Some [])
      else (case relationship_loop st (pairs (take 15 (numeric_cols st))) of
              Inl e \<Rightarrow> Inl e
            | Inr rels \<Rightarrow> Inr (map_option (take 30) (sort_reverse_py strength rels))))"

text \<open>
  The lag loop seen as a whole, for the proofs: the coefficient of one lag, the lags that
  keep at least 5 overlapping samples, the profile they produce, and the running best
  \<open>(best_lag, best_corr)\<close> over a profile.
\<close>

definition lag_r :: "real list \<Rightarrow> real list \<Rightarrow> int \<Rightarrow> real option" where
  "lag_r xc yc l = pearson_stat (fst (shifted xc yc l)) (snd (shifted xc yc l))"

definition lag_kept :: "real list \<Rightarrow> real list \<Rightarrow> int \<Rightarrow> bool" where
  "lag_kept xc yc l = (5 \<le> length (fst (shifted xc yc l)))"

definition profile_of :: "real list \<Rightarrow> real list \<Rightarrow> int list \<Rightarrow> lag_entry list" where
  "profile_of xc yc ls =
     map (\<lambda>l. \<lparr>lag = l, lag_correlation = lag_r xc yc l\<rparr>) (filter (lag_kept xc yc) ls)"

fun best_of :: "lag_entry list \<Rightarrow> int \<times> real \<Rightarrow> int \<times> real" where
  "best_of [] b = b"
| "best_of (e # es) (bl, bc) =
     best_of es (case lag_correlation e of
                   None \<Rightarrow> (bl, bc)
                 | Some v \<Rightarrow> if \<bar>v\<bar> > \<bar>bc\<bar> then (lag e, v) else (bl, bc))"

section \<open>Batch comparison: ranking\<close>

text \<open>
  \<^verbatim>\<open>batch_metrics: Dict[str, Dict[str, float]]\<close>: the outer dict is iterated in insertion
  order, the inner one is only looked up.
\<close>

type_synonym metrics = "string \<rightharpoonup> real"
type_synonym batch_metrics = "(string \<times> metrics) list"

record ranking =
  batch_id :: string
  metric_value :: real
  rank :: nat
  normalized_score :: real

text \<open>
  The first loop of \<^verbatim>\<open>rank_batches\<close>: one \<^verbatim>\<open>{"batch_id", "value"}\<close> entry for each batch
  whose metrics hold the key, in the order of \<^verbatim>\<open>batch_metrics.items()\<close>.
\<close>

fun collect_metric :: "batch_metrics \<Rightarrow> string \<Rightarrow> (string \<times> real) list" where
  "collect_metric [] k = []"
| "collect_metric ((b, m) # bm) k =
     (case m k of None \<Rightarrow> collect_metric bm k
      | Some v \<Rightarrow> (b, v) # collect_metric bm k)"

text \<open>
  \<^verbatim>\<open>rankings.sort(key=lambda x: x["value"], reverse=higher_is_better)\<close>. Python's sort is
  stable, and with \<^verbatim>\<open>reverse=True\<close> it keeps the original order of equal keys: the list is
  reversed, sorted ascending and stable, and reversed again.
\<close>

definition sort_rankings :: "bool \<Rightarrow> (string \<times> real) list \<Rightarrow> (string \<times> real) list" where
  "sort_rankings higher_is_better xs =
     (if higher_is_better then rev (sort_key snd (rev xs)) else sort_key snd xs)"

text \<open>
  The second loop: \<^verbatim>\<open>r["rank"] = i + 1\<close> and
  \<^verbatim>\<open>r["normalized_score"] = 1 - (i / len(rankings)) if len(rankings) > 1 else 1.0\<close>.
\<close>

definition score_entry :: "nat \<Rightarrow> nat \<times> (string \<times> real) \<Rightarrow> ranking" where
  "score_entry n e =
     (case e of (i, (b, v)) \<Rightarrow>
        \<lparr>batch_id = b, metric_value = v, rank = i + 1,
         normalized_score = (if n > 1 then 1 - real i / real n else 1)\<rparr>)"

definition rank_batches :: "batch_metrics \<Rightarrow> string \<Rightarrow> bool \<Rightarrow> ranking list" where
  "rank_batches bm metric_key higher_is_better =
     (let rankings = sort_rankings higher_is_better (collect_metric bm metric_key)
      in map (score_entry (length rankings)) (enumerate 0 rankings))"

section \<open>Global metrics: the sequential batch trend\<close>








section \<open>Example inputs\<close>

text \<open>
  A frame with a time column and two numeric columns, one of them entirely null, and a
  parser that parses nothing (the frame holds no strings).
\<close>

definition example_frame :: dataframe where
  "example_frame =
     [\<lparr>col_name = ''Hour'', col_dtype = DFloat, col_cells = [Num 0, Num 1, Num 2]\<rparr>,
      \<lparr>col_name = ''Biomass'', col_dtype = DFloat, col_cells = [Null, Null, Null]\<rparr>,
      \<lparr>col_name = ''pH'', col_dtype = DFloat, col_cells = [Num 7, Num 7, Num 8]\<rparr>]"

definition no_parse :: "string \<Rightarrow> real option" where
  "no_parse s = None"

text \<open>
  A frame in which two columns qualify as the batch column and two as the time column.
\<close>

definition two_role_frame :: dataframe where
  "two_role_frame =
     [\<lparr>col_name = ''batch'', col_dtype = DObject, col_cells = [Str ''a'', Str ''b'']\<rparr>,
      \<lparr>col_name = ''run'', col_dtype = DObject, col_cells = [Str ''x'', Str ''y'']\<rparr>,
      \<lparr>col_name = ''time'', col_dtype = DFloat, col_cells = [Num 0, Num 1]\<rparr>,
      \<lparr>col_name = ''temp'', col_dtype = DFloat, col_cells = [Num 20, Num 21]\<rparr>]"

text \<open>
  A frame of four numeric columns, one of them constant, and the two shapes of entry that
  the relationship analysis produces for it: a pair with the constant column has NaN
  coefficients, a pair of varying columns has the same Pearson and Spearman coefficient.
\<close>

definition constant_column_frame :: dataframe where
  "constant_column_frame =
     [\<lparr>col_name = ''A'', col_dtype = DFloat,
        col_cells = [Num (- 2), Num (- 1), Num 0, Num 1, Num 2]\<rparr>,
      \<lparr>col_name = ''B'', col_dtype = DFloat,
        col_cells = [Num 3, Num 3, Num 3, Num 3, Num 3]\<rparr>,
      \<lparr>col_name = ''C'', col_dtype = DFloat,
        col_cells = [Num 1, Num (- 2), Num 0, Num 2, Num (- 1)]\<rparr>,
      \<lparr>col_name = ''D'', col_dtype = DFloat,
        col_cells = [Num 1, Num (- 2), Num 0, Num 2, Num (- 1)]\<rparr>]"

definition undefined_pair :: "string \<Rightarrow> string \<Rightarrow> relationship" where
  "undefined_pair a b =
     \<lparr>var_x = a, var_y = b, correlation = Correlation None None 5,
      lagged_correlation = LaggedUnavailable, cross_batch_stability = StabilityUnavailable\<rparr>"

definition defined_pair :: "string \<Rightarrow> string \<Rightarrow> real \<Rightarrow> relationship" where
  "defined_pair a b r =
     \<lparr>var_x = a, var_y = b, correlation = Correlation (Some r) (Some r) 5,
      lagged_correlation = LaggedUnavailable, cross_batch_stability = StabilityUnavailable\<rparr>"

section \<open>Properties of the ranking\<close>

text \<open>From here on the file states and proves properties of the definitions above.\<close>

lemma length_sort_rankings: "length (sort_rankings h xs) = length xs"
  by (simp add: sort_rankings_def)

lemma mset_sort_rankings: "mset (sort_rankings h xs) = mset xs"
  by (simp add: sort_rankings_def)

lemma sort_rankings_descending:
  "sorted_wrt (\<lambda>a b. snd b \<le> snd a) (sort_rankings True xs)"
proof -
  have "sorted (map snd (sort_key snd (rev xs)))"
    by (rule sorted_sort_key)
  then have "sorted_wrt (\<lambda>a b. snd a \<le> snd b) (sort_key snd (rev xs))"
    by (simp add: sorted_map)
  then show ?thesis
    by (simp add: sort_rankings_def sorted_wrt_rev)
qed

lemma length_rank_batches:
  "length (rank_batches bm k h) = length (collect_metric bm k)"
  by (simp add: rank_batches_def Let_def length_sort_rankings)

lemma rank_batches_nth:
  assumes "i < length (collect_metric bm k)"
  shows "rank_batches bm k h ! i =
           score_entry (length (collect_metric bm k))
             (i, sort_rankings h (collect_metric bm k) ! i)"
  using assms
  by (simp add: rank_batches_def Let_def length_sort_rankings nth_enumerate_eq)

lemma rank_batches_entries:
  "map (\<lambda>r. (batch_id r, metric_value r)) (rank_batches bm k h) =
     sort_rankings h (collect_metric bm k)"
  by (rule nth_equalityI)
     (auto simp: length_rank_batches length_sort_rankings rank_batches_nth
        score_entry_def split: prod.splits)

text \<open>
  C1 (amended). \<^verbatim>\<open>rank_batches\<close> with \<^verbatim>\<open>higher_is_better=True\<close> returns one entry for each
  of the \<open>N\<close> batches that have the metric, ordered descending by the metric's value, with
  ranks \<open>1..N\<close>. The normalized score of the entry of rank \<open>r\<close> is \<open>1 - (r - 1) / N\<close>: the
  code divides by \<open>N\<close>, not by \<open>N - 1\<close>. Rank 1 scores \<open>1\<close>, a single batch scores \<open>1\<close>, and
  scores do not increase with rank.
\<close>

theorem rank_batches_scores:
  fixes bm :: batch_metrics and k :: string
  defines "rs \<equiv> rank_batches bm k True"
    and "N \<equiv> length (filter (\<lambda>(b, m). m k \<noteq> None) bm)"
  shows "length rs = N
     \<and> mset (map (\<lambda>r. (batch_id r, metric_value r)) rs) = mset (collect_metric bm k)
     \<and> sorted_wrt (\<lambda>a b. metric_value b \<le> metric_value a) rs
     \<and> (\<forall>i<N. rank (rs ! i) = i + 1
            \<and> normalized_score (rs ! i) = 1 - (real (rank (rs ! i)) - 1) / real N)
     \<and> (0 < N \<longrightarrow> normalized_score (rs ! 0) = 1)
     \<and> (\<forall>i j. i \<le> j \<and> j < N \<longrightarrow> normalized_score (rs ! j) \<le> normalized_score (rs ! i))"
proof -
  have N: "N = length (collect_metric bm k)"
    unfolding N_def by (induction bm) (auto split: option.splits)
  have len: "length rs = N"
    by (simp add: rs_def N length_rank_batches)
  have ms: "mset (map (\<lambda>r. (batch_id r, metric_value r)) rs) = mset (collect_metric bm k)"
    by (simp add: rs_def rank_batches_entries mset_sort_rankings)
  have "sorted_wrt (\<lambda>a b. snd b \<le> snd a) (map (\<lambda>r. (batch_id r, metric_value r)) rs)"
    by (simp add: rs_def rank_batches_entries sort_rankings_descending)
  then have srt: "sorted_wrt (\<lambda>a b. metric_value b \<le> metric_value a) rs"
    by (simp add: sorted_wrt_map)
  have nth: "rank (rs ! i) = i + 1
      \<and> normalized_score (rs ! i) = (if N > 1 then 1 - real i / real N else 1)"
    if "i < N" for i
    using that
    by (simp add: rs_def N rank_batches_nth score_entry_def split: prod.splits)
  have sc: "normalized_score (rs ! i) = 1 - real i / real N" if "i < N" for i
  proof (cases "N > 1")
    case True
    then show ?thesis using nth [OF that] by simp
  next
    case False
    with that have "i = 0" "N = 1" by auto
    then show ?thesis using nth [OF that] by simp
  qed
  have ranks: "\<forall>i<N. rank (rs ! i) = i + 1
      \<and> normalized_score (rs ! i) = 1 - (real (rank (rs ! i)) - 1) / real N"
    using nth sc by simp
  have first: "0 < N \<longrightarrow> normalized_score (rs ! 0) = 1"
    using sc by simp
  have mono: "\<forall>i j. i \<le> j \<and> j < N \<longrightarrow> normalized_score (rs ! j) \<le> normalized_score (rs ! i)"
  proof (intro allI impI)
    fix i j assume ij: "i \<le> j \<and> j < N"
    then have "real i / real N \<le> real j / real N"
      by (simp add: divide_right_mono)
    with ij show "normalized_score (rs ! j) \<le> normalized_score (rs ! i)"
      by (simp add: sc)
  qed
  from len ms srt ranks first mono show ?thesis by blast
qed

theorem rank_batches_scores_witness:
  "length (filter (\<lambda>(b, m). m ''max_value'' \<noteq> None)
      [(''B1'', [''max_value'' \<mapsto> 1]), (''B2'', Map.empty), (''B3'', [''max_value'' \<mapsto> (3::real)])]) = 2
   \<and> map batch_id (rank_batches [(''B1'', [''max_value'' \<mapsto> 1]), (''B2'', Map.empty),
        (''B3'', [''max_value'' \<mapsto> 3])] ''max_value'' True) = [''B3'', ''B1'']
   \<and> normalized_score (rank_batches [(''B1'', [''max_value'' \<mapsto> 1]), (''B2'', Map.empty),
        (''B3'', [''max_value'' \<mapsto> 3])] ''max_value'' True ! 1) = 1 - (2 - 1) / 2"
  using rank_batches_scores [of
      "[(''B1'', [''max_value'' \<mapsto> 1]), (''B2'', Map.empty), (''B3'', [''max_value'' \<mapsto> 3])]"
      "''max_value''"]
  by (simp add: rank_batches_def sort_rankings_def score_entry_def enumerate_eq_zip upt_rec)

text \<open>
  C1 as stated fails: with two ranked batches the second one scores \<open>1 - 1/2 = 1/2\<close>,
  where the formula \<open>1 - (rank - 1) / (N - 1)\<close> of the claim gives \<open>0\<close>.
\<close>

theorem rank_batches_formula_counterexample:
  "rank (rank_batches [(''B1'', [''max_value'' \<mapsto> 2]), (''B2'', [''max_value'' \<mapsto> 1])]
           ''max_value'' True ! 1) = 2
   \<and> normalized_score (rank_batches [(''B1'', [''max_value'' \<mapsto> 2]), (''B2'', [''max_value'' \<mapsto> 1])]
           ''max_value'' True ! 1) = 1 / 2
   \<and> (1 / 2 :: real) \<noteq> 1 - (2 - 1) / (2 - 1)"
  by (simp add: rank_batches_def sort_rankings_def score_entry_def enumerate_eq_zip upt_rec)

section \<open>Properties of the quality report\<close>

text \<open>
  C4 (amended). A column with at least two non-null values whose range is exactly zero is
  reported as flatlined with \<open>flatline_pct = 100\<close> (and its constant value). A column with
  fewer than two non-null values is reported as not flatlined, with \<open>flatline_pct = 0\<close>.
\<close>

theorem detect_flatline_zero_range:
  "(2 \<le> length (dropna series)
      \<and> maximum (dropna series) - minimum (dropna series) = 0 \<longrightarrow>
        is_flatlined (detect_flatline series)
        \<and> flatline_pct (detect_flatline series) = Some 100
        \<and> constant_value (detect_flatline series) = Some (hd (dropna series)))
   \<and> (length (dropna series) < 2 \<longrightarrow>
        \<not> is_flatlined (detect_flatline series)
        \<and> flatline_pct (detect_flatline series) = Some 0)"
  by (simp add: detect_flatline_def Let_def)

theorem detect_flatline_zero_range_witness:
  "2 \<le> length (dropna [Some 3, None, Some 3])
   \<and> maximum (dropna [Some 3, None, Some 3]) - minimum (dropna [Some 3, None, Some 3]) = 0
   \<and> is_flatlined (detect_flatline [Some 3, None, Some 3])
   \<and> flatline_pct (detect_flatline [Some 3, None, Some 3]) = Some 100
   \<and> constant_value (detect_flatline [Some 3, None, Some 3]) = Some 3
   \<and> length (dropna [None, None]) < 2
   \<and> \<not> is_flatlined (detect_flatline [None, None])
   \<and> flatline_pct (detect_flatline [None, None]) = Some 0"
proof -
  have a: "2 \<le> length (dropna [Some 3, None, Some 3])
      \<and> maximum (dropna [Some 3, None, Some 3]) - minimum (dropna [Some 3, None, Some 3]) = 0"
    by (simp add: dropna_def maximum_def minimum_def)
  have c: "hd (dropna [Some 3, None, Some (3::real)]) = 3"
    by (simp add: dropna_def)
  have b: "length (dropna [None, None]) < 2"
    by (simp add: dropna_def)
  from detect_flatline_zero_range [of "[Some 3, None, Some 3]"] a
  have one: "is_flatlined (detect_flatline [Some 3, None, Some 3])
      \<and> flatline_pct (detect_flatline [Some 3, None, Some 3]) = Some 100
      \<and> constant_value (detect_flatline [Some 3, None, Some 3])
          = Some (hd (dropna [Some 3, None, Some 3]))"
    by blast
  from detect_flatline_zero_range [of "[None, None]"] b
  have two: "\<not> is_flatlined (detect_flatline [None, None])
      \<and> flatline_pct (detect_flatline [None, None]) = Some 0"
    by blast
  from a one two b show ?thesis
    unfolding c by blast
qed

text \<open>
  C4 as stated fails for a column with a single non-null value: its range is zero, and the
  guard \<^verbatim>\<open>len(data) < 2\<close> reports it as not flatlined, with \<open>flatline_pct = 0\<close>.
\<close>

theorem detect_flatline_single_value_counterexample:
  "maximum (dropna [Some 5, None]) - minimum (dropna [Some 5, None]) = 0
   \<and> \<not> is_flatlined (detect_flatline [Some 5, None])
   \<and> flatline_pct (detect_flatline [Some 5, None]) = Some 0"
  by (simp add: detect_flatline_def dropna_def maximum_def minimum_def)

lemma quality_loop_entries:
  assumes "quality_loop d ts bs cols = Inr qs"
  shows "length qs = length cols
     \<and> (\<forall>i<length cols. \<exists>c. get_column d (cols ! i) = Inr c
            \<and> qs ! i = variable_entry (cols ! i) (as_float (col_cells c)) ts bs)"
  using assms
proof (induction cols arbitrary: qs)
  case Nil
  then show ?case by simp
next
  case (Cons col cols)
  from Cons.prems obtain c qs' where c: "get_column d col = Inr c"
    and qs': "quality_loop d ts bs cols = Inr qs'"
    and qs: "qs = variable_entry col (as_float (col_cells c)) ts bs # qs'"
    by (auto split: sum.splits)
  from Cons.IH [OF qs'] have ih: "length qs' = length cols"
    "\<And>i. i < length cols \<Longrightarrow> \<exists>c. get_column d (cols ! i) = Inr c
            \<and> qs' ! i = variable_entry (cols ! i) (as_float (col_cells c)) ts bs"
    by auto
  show ?case
  proof (intro conjI allI impI)
    show "length qs = length (col # cols)" using ih(1) qs by simp
  next
    fix i assume "i < length (col # cols)"
    then show "\<exists>c. get_column d ((col # cols) ! i) = Inr c
            \<and> qs ! i = variable_entry ((col # cols) ! i) (as_float (col_cells c)) ts bs"
      using c qs ih(2) by (cases i) auto
  qed
qed

lemma analyze_quality_Inr:
  assumes "analyze_quality prs st = Inr rep"
  obtains ts bs where "quality_time_series prs st = Inr ts"
    and "quality_batch_series st = Inr bs"
    and "quality_loop (df st) ts bs (numeric_cols st) = Inr (variables rep)"
  using assms by (auto simp: analyze_quality_def split: sum.splits)

lemma all_null_entry:
  assumes "series \<noteq> []" and "\<forall>v\<in>set series. v = None"
  shows "missing_pct (variable_entry col series ts bs) = Some 100"
    and "signal_type (q_density (variable_entry col series ts bs)) = Sparse"
    and "q_stats (variable_entry col series ts bs)
           = \<lparr>stats_mean = None, stats_std = None, stats_min = None, stats_max = None\<rparr>"
proof -
  have f: "filter (\<lambda>c. c = None) series = series"
    using assms(2) by (simp add: filter_id_conv)
  have mp: "compute_missing_percentage series = Some 100"
    using assms(1) by (simp add: compute_missing_percentage_def f)
  show "missing_pct (variable_entry col series ts bs) = Some 100"
    by (simp add: variable_entry_def Let_def mp)
  show "signal_type (q_density (variable_entry col series ts bs)) = Sparse"
    using assms(1)
    by (simp add: variable_entry_def Let_def mp classify_signal_density_def float_gt_def)
  have "isna_all series"
    using assms(2) by (simp add: isna_all_def list_all_iff)
  then show "q_stats (variable_entry col series ts bs)
           = \<lparr>stats_mean = None, stats_std = None, stats_min = None, stats_max = None\<rparr>"
    by (simp add: variable_entry_def Let_def compute_stats_def)
qed

lemma example_keywords:
  "has_time_keyword ''Hour''" "\<not> has_batch_keyword ''Hour''"
  "\<not> has_batch_keyword ''Biomass''" "\<not> has_batch_keyword ''pH''"
  by code_simp+

lemma example_roles:
  "infer_columns no_parse (init example_frame) =
     \<lparr>df = example_frame, time_col = Some ''Hour'', batch_col = None,
      numeric_cols = [''Biomass'', ''pH''], categorical_cols = []\<rparr>"
  by (simp add: infer_columns_def init_def example_frame_def infer_batch_by_name_def
        infer_batch_by_pattern_def coerce_columns_def coerce_column_def infer_time_def
        classify_remaining_def example_keywords is_batch_like_def is_float_dtype_def
        is_numeric_dtype_def time_candidate_def nrows_def)

lemma example_quality:
  "analyze_quality no_parse (infer_columns no_parse (init example_frame)) =
     Inr \<lparr>variables =
            [variable_entry ''Biomass'' [None, None, None] [Some 0, Some 1, Some 2] None,
             variable_entry ''pH'' [Some 7, Some 7, Some 8] [Some 0, Some 1, Some 2] None],
          overall = compute_overall_quality
            [variable_entry ''Biomass'' [None, None, None] [Some 0, Some 1, Some 2] None,
             variable_entry ''pH'' [Some 7, Some 7, Some 8] [Some 0, Some 1, Some 2] None]\<rparr>"
  unfolding example_roles
  by (simp add: analyze_quality_def quality_time_series_def
        quality_batch_series_def truthy_def get_column_def example_frame_def
        to_numeric_def as_float_def)

text \<open>
  C8. In the quality report, the entry of a numeric column that has at least one row and
  is entirely null has density class \<open>sparse\<close>, \<open>missing_pct = 100\<close> and a stats block
  whose four fields are \<^verbatim>\<open>None\<close>. (A frame without rows is rejected before the analysis
  starts.)
\<close>

theorem all_null_column_quality:
  assumes "analyze_quality prs st = Inr rep"
    and "i < length (numeric_cols st)"
    and "get_column (df st) (numeric_cols st ! i) = Inr c"
    and "col_cells c \<noteq> []"
    and "\<forall>x\<in>set (col_cells c). x = Null"
  shows "variable (variables rep ! i) = numeric_cols st ! i
     \<and> signal_type (q_density (variables rep ! i)) = Sparse
     \<and> missing_pct (variables rep ! i) = Some 100
     \<and> q_stats (variables rep ! i)
         = \<lparr>stats_mean = None, stats_std = None, stats_min = None, stats_max = None\<rparr>"
proof -
  from assms(1) obtain ts bs where
    loop: "quality_loop (df st) ts bs (numeric_cols st) = Inr (variables rep)"
    by (rule analyze_quality_Inr)
  from quality_loop_entries [OF loop] assms(2,3)
  have q: "variables rep ! i
      = variable_entry (numeric_cols st ! i) (as_float (col_cells c)) ts bs"
    by auto
  have ne: "as_float (col_cells c) \<noteq> []"
    using assms(4) by (simp add: as_float_def)
  have nulls: "\<forall>v\<in>set (as_float (col_cells c)). v = None"
    using assms(5) by (auto simp: as_float_def)
  show ?thesis
    unfolding q using all_null_entry [OF ne nulls]
    by (simp add: variable_entry_def Let_def)
qed

theorem all_null_column_quality_witness:
  "\<exists>rep c. analyze_quality no_parse (infer_columns no_parse (init example_frame)) = Inr rep
     \<and> get_column example_frame ''Biomass'' = Inr c
     \<and> col_cells c = [Null, Null, Null]
     \<and> variable (variables rep ! 0) = ''Biomass''
     \<and> signal_type (q_density (variables rep ! 0)) = Sparse
     \<and> missing_pct (variables rep ! 0) = Some 100
     \<and> q_stats (variables rep ! 0)
         = \<lparr>stats_mean = None, stats_std = None, stats_min = None, stats_max = None\<rparr>"
proof -
  let ?st = "infer_columns no_parse (init example_frame)"
  let ?c = "\<lparr>col_name = ''Biomass'', col_dtype = DFloat, col_cells = [Null, Null, Null]\<rparr>"
  obtain rep where rep: "analyze_quality no_parse ?st = Inr rep"
    using example_quality by blast
  have i: "0 < length (numeric_cols ?st)"
    by (simp add: example_roles)
  have c: "get_column (df ?st) (numeric_cols ?st ! 0) = Inr ?c"
    unfolding example_roles by (simp add: get_column_def example_frame_def)
  have ne: "col_cells ?c \<noteq> []" by simp
  have nulls: "\<forall>x\<in>set (col_cells ?c). x = Null" by simp
  have g: "get_column example_frame ''Biomass'' = Inr ?c"
    by (simp add: get_column_def example_frame_def)
  show ?thesis
    using all_null_column_quality [OF rep i c ne nulls] rep g
    by (simp add: example_roles)
qed

text \<open>
  C10. Every entry of the quality report carries the sampling statistics computed from the
  time series (the parsed time column, or the row numbers) and the batch column alone, so
  any two entries of one report carry equal sampling statistics.
\<close>

theorem sampling_block_shared:
  assumes "analyze_quality prs st = Inr rep"
  shows "\<exists>ts bs. quality_time_series prs st = Inr ts \<and> quality_batch_series st = Inr bs
     \<and> (\<forall>q\<in>set (variables rep). q_sampling q = compute_sampling_stats ts bs)
     \<and> (\<forall>q\<in>set (variables rep). \<forall>q'\<in>set (variables rep). q_sampling q = q_sampling q')"
proof -
  from assms obtain ts bs where ts: "quality_time_series prs st = Inr ts"
    and bs: "quality_batch_series st = Inr bs"
    and loop: "quality_loop (df st) ts bs (numeric_cols st) = Inr (variables rep)"
    by (rule analyze_quality_Inr)
  have each: "q_sampling q = compute_sampling_stats ts bs" if "q \<in> set (variables rep)" for q
  proof -
    from that obtain i where i: "i < length (variables rep)" "variables rep ! i = q"
      by (auto simp: in_set_conv_nth)
    with quality_loop_entries [OF loop] show ?thesis
      by (auto simp: variable_entry_def Let_def)
  qed
  show ?thesis
    using ts bs each by auto
qed

theorem sampling_block_shared_witness:
  "\<exists>rep. analyze_quality no_parse (infer_columns no_parse (init example_frame)) = Inr rep
     \<and> map variable (variables rep) = [''Biomass'', ''pH'']
     \<and> q_sampling (variables rep ! 0) = q_sampling (variables rep ! 1)
     \<and> q_sampling (variables rep ! 0) = Sampling 1 0 1 1 1 True"
proof -
  let ?st = "infer_columns no_parse (init example_frame)"
  obtain rep where rep: "analyze_quality no_parse ?st = Inr rep"
    and vars: "variables rep =
            [variable_entry ''Biomass'' [None, None, None] [Some 0, Some 1, Some 2] None,
             variable_entry ''pH'' [Some 7, Some 7, Some 8] [Some 0, Some 1, Some 2] None]"
    using example_quality by simp
  have mem: "variables rep ! 0 \<in> set (variables rep)" "variables rep ! 1 \<in> set (variables rep)"
    by (simp_all add: vars)
  have names: "map variable (variables rep) = [''Biomass'', ''pH'']"
    by (simp add: vars variable_entry_def Let_def)
  have val: "compute_sampling_stats [Some 0, Some 1, Some 2] None = Sampling 1 0 1 1 1 True"
    by (simp add: compute_sampling_stats_def isna_all_def interval_stats_def positive_diffs_def
          dropna_def mean_def std_sample_def sum_sq_dev_def minimum_def maximum_def Let_def)
  have s0: "q_sampling (variables rep ! 0) = Sampling 1 0 1 1 1 True"
    by (simp add: vars variable_entry_def Let_def val)
  from sampling_block_shared [OF rep] mem
  have eq: "q_sampling (variables rep ! 0) = q_sampling (variables rep ! 1)"
    by blast
  from eq s0 have s1: "q_sampling (variables rep ! 1) = Sampling 1 0 1 1 1 True"
    by simp
  show ?thesis
    by (rule exI [of _ rep]) (simp only: rep names s0 s1 simp_thms)
qed

section \<open>Properties of the column-role inference\<close>

lemma find_in_set: "find P xs = Some x \<Longrightarrow> x \<in> set xs \<and> P x"
  by (induction xs) (auto split: if_splits)

lemma find_unique_perm:
  assumes "set xs' = set xs"
    and "\<forall>x\<in>set xs. \<forall>y\<in>set xs. P x \<and> P y \<longrightarrow> x = y"
  shows "find P xs' = find P xs"
proof (cases "find P xs")
  case None
  then have "\<forall>x\<in>set xs'. \<not> P x"
    using assms(1) by (simp add: find_None_iff)
  then have "find P xs' = None"
    by (simp add: find_None_iff)
  with None show ?thesis by simp
next
  case (Some x)
  then have x: "x \<in> set xs" "P x" using find_in_set by fastforce+
  then have "\<exists>y\<in>set xs'. P y" using assms(1) by auto
  then obtain y where y: "find P xs' = Some y"
    by (cases "find P xs'") (auto simp: find_None_iff)
  then have "y \<in> set xs" "P y" using find_in_set assms(1) by fastforce+
  with x assms(2) have "y = x" by blast
  with y Some show ?thesis by simp
qed

lemma nrows_perm:
  assumes "wf_frame d" and "set d' = set d"
  shows "nrows d' = nrows d"
proof (cases d)
  case Nil
  with assms(2) show ?thesis by simp
next
  case (Cons c cs)
  then have "d' \<noteq> []" using assms(2) by auto
  then obtain c' cs' where d': "d' = c' # cs'" by (cases d') auto
  then have "c' \<in> set d" using assms(2) by auto
  then have "length (col_cells c') = length (col_cells (hd d))"
    using assms(1) by (simp add: wf_frame_def list_all_iff)
  then show ?thesis by (simp add: nrows_def d' Cons)
qed

lemma batch_of_eq:
  "batch_of d =
     (case find (\<lambda>c. has_batch_keyword (col_name c)) d of
        Some c \<Rightarrow> Some (col_name c)
      | None \<Rightarrow> map_option col_name (find (is_batch_like (nrows d)) d))"
  by (simp add: batch_of_def infer_batch_by_name_def infer_batch_by_pattern_def init_def
        split: option.splits)

lemma infer_columns_roles:
  "batch_col (infer_columns prs (init d)) = batch_of d"
  "df (infer_columns prs (init d)) = map (coerce_column prs (nrows d) (batch_of d)) d"
  "time_col (infer_columns prs (init d))
     = map_option col_name
         (find (time_candidate prs (batch_of d)) (map (coerce_column prs (nrows d) (batch_of d)) d))"
  by (simp_all add: infer_columns_def classify_remaining_def infer_time_def coerce_columns_def
        batch_of_def infer_batch_by_name_def infer_batch_by_pattern_def init_def Let_def
        split: option.splits)

text \<open>
  C9 (amended). Each role goes to the first column, in column order, that qualifies: for
  the batch column a name with a batch keyword, else a batch-like value pattern; for the
  time column a name with a time keyword on a numeric or monotonic column other than the
  batch column. Permuting the columns of a frame leaves the selected batch and time
  columns unchanged whenever at most one column qualifies at each of these stages.
\<close>

theorem role_inference_permutation:
  assumes perm: "mset d' = mset d"
    and wf: "wf_frame d"
    and name_unique: "\<forall>c\<in>set d. \<forall>c'\<in>set d.
          has_batch_keyword (col_name c) \<and> has_batch_keyword (col_name c') \<longrightarrow> c = c'"
    and pattern_unique: "(\<forall>c\<in>set d. \<not> has_batch_keyword (col_name c)) \<longrightarrow>
          (\<forall>c\<in>set d. \<forall>c'\<in>set d.
             is_batch_like (nrows d) c \<and> is_batch_like (nrows d) c' \<longrightarrow> c = c')"
    and time_unique: "\<forall>c\<in>set (df (infer_columns prs (init d))).
          \<forall>c'\<in>set (df (infer_columns prs (init d))).
             time_candidate prs (batch_col (infer_columns prs (init d))) c
             \<and> time_candidate prs (batch_col (infer_columns prs (init d))) c' \<longrightarrow> c = c'"
  shows "batch_col (infer_columns prs (init d')) = batch_col (infer_columns prs (init d))
     \<and> time_col (infer_columns prs (init d')) = time_col (infer_columns prs (init d))"
proof -
  have s: "set d' = set d" using perm by (rule mset_eq_setD)
  have n: "nrows d' = nrows d" using wf s by (rule nrows_perm)
  have byname: "find (\<lambda>c. has_batch_keyword (col_name c)) d'
      = find (\<lambda>c. has_batch_keyword (col_name c)) d"
    using s name_unique by (rule find_unique_perm)
  have b: "batch_of d' = batch_of d"
  proof (cases "find (\<lambda>c. has_batch_keyword (col_name c)) d")
    case (Some c)
    then show ?thesis using byname by (simp add: batch_of_eq)
  next
    case None
    then have "\<forall>c\<in>set d. \<not> has_batch_keyword (col_name c)"
      by (simp add: find_None_iff)
    with pattern_unique have "\<forall>c\<in>set d. \<forall>c'\<in>set d.
             is_batch_like (nrows d) c \<and> is_batch_like (nrows d) c' \<longrightarrow> c = c'"
      by blast
    with s have "find (is_batch_like (nrows d)) d' = find (is_batch_like (nrows d)) d"
      by (rule find_unique_perm)
    with None byname n show ?thesis by (simp add: batch_of_eq)
  qed
  let ?co = "coerce_column prs (nrows d) (batch_of d)"
  have s2: "set (map ?co d') = set (map ?co d)" using s by simp
  have tu: "\<forall>c\<in>set (map ?co d). \<forall>c'\<in>set (map ?co d).
      time_candidate prs (batch_of d) c \<and> time_candidate prs (batch_of d) c' \<longrightarrow> c = c'"
    using time_unique by (simp only: infer_columns_roles)
  have t: "find (time_candidate prs (batch_of d)) (map ?co d')
      = find (time_candidate prs (batch_of d)) (map ?co d)"
    using s2 tu by (rule find_unique_perm)
  show ?thesis
    by (simp add: infer_columns_roles b n t)
qed

lemma example_no_time_keyword:
  "\<not> has_time_keyword ''Biomass''" "\<not> has_time_keyword ''pH''"
  by code_simp+

theorem role_inference_permutation_witness:
  "mset (rev example_frame) = mset example_frame
   \<and> batch_col (infer_columns no_parse (init (rev example_frame))) = None
   \<and> time_col (infer_columns no_parse (init (rev example_frame))) = Some ''Hour''"
proof -
  have perm: "mset (rev example_frame) = mset example_frame" by simp
  have wf: "wf_frame example_frame"
    by (simp add: wf_frame_def example_frame_def)
  have name_unique: "\<forall>c\<in>set example_frame. \<forall>c'\<in>set example_frame.
          has_batch_keyword (col_name c) \<and> has_batch_keyword (col_name c') \<longrightarrow> c = c'"
    by (simp add: example_frame_def example_keywords)
  have pattern_unique: "(\<forall>c\<in>set example_frame. \<not> has_batch_keyword (col_name c)) \<longrightarrow>
          (\<forall>c\<in>set example_frame. \<forall>c'\<in>set example_frame.
             is_batch_like (nrows example_frame) c \<and> is_batch_like (nrows example_frame) c'
               \<longrightarrow> c = c')"
    by (simp add: example_frame_def is_batch_like_def is_float_dtype_def)
  have time_unique: "\<forall>c\<in>set (df (infer_columns no_parse (init example_frame))).
          \<forall>c'\<in>set (df (infer_columns no_parse (init example_frame))).
             time_candidate no_parse (batch_col (infer_columns no_parse (init example_frame))) c
             \<and> time_candidate no_parse (batch_col (infer_columns no_parse (init example_frame))) c'
               \<longrightarrow> c = c'"
    unfolding example_roles
    by (simp add: example_frame_def time_candidate_def example_keywords example_no_time_keyword)
  from role_inference_permutation [OF perm wf name_unique pattern_unique time_unique]
  show ?thesis
    using perm by (simp add: example_roles)
qed

text \<open>
  C9 as stated fails: with columns \<open>batch, run, time, temp\<close> the roles go to \<open>batch\<close> and
  \<open>time\<close>, and with the same columns in reverse order to \<open>run\<close> and \<open>temp\<close> (the keyword
  \<open>t\<close> is contained in \<open>temp\<close>).
\<close>

lemma two_role_keywords:
  "has_batch_keyword ''batch''" "has_batch_keyword ''run''"
  "\<not> has_batch_keyword ''time''" "\<not> has_batch_keyword ''temp''"
  "\<not> has_time_keyword ''run''" "has_time_keyword ''time''" "has_time_keyword ''temp''"
  by code_simp+

theorem role_inference_order_counterexample:
  "mset (rev two_role_frame) = mset two_role_frame
   \<and> batch_col (infer_columns no_parse (init two_role_frame)) = Some ''batch''
   \<and> batch_col (infer_columns no_parse (init (rev two_role_frame))) = Some ''run''
   \<and> time_col (infer_columns no_parse (init two_role_frame)) = Some ''time''
   \<and> time_col (infer_columns no_parse (init (rev two_role_frame))) = Some ''temp''"
  by (simp add: infer_columns_roles batch_of_eq two_role_frame_def two_role_keywords
        coerce_column_def is_numeric_dtype_def to_numeric_def no_parse_def nrows_def
        time_candidate_def)

section \<open>Properties of the relationship analyzer\<close>

lemma length_clean: "length (map fst (clean_pairs x y)) = length (map snd (clean_pairs x y))"
  by simp

lemma shifted_lengths:
  "length xc = length yc \<Longrightarrow> length (fst (shifted xc yc l)) = length (snd (shifted xc yc l))"
  by (auto simp: shifted_def)

lemma lag_step_eq:
  assumes "length xc = length yc"
  shows "lag_step xc yc (bl, bc, res) l =
     (if lag_kept xc yc l
      then Inr (fst (best_of [\<lparr>lag = l, lag_correlation = lag_r xc yc l\<rparr>] (bl, bc)),
                snd (best_of [\<lparr>lag = l, lag_correlation = lag_r xc yc l\<rparr>] (bl, bc)),
                res @ [\<lparr>lag = l, lag_correlation = lag_r xc yc l\<rparr>])
      else Inr (bl, bc, res))"
proof (cases "lag_kept xc yc l")
  case False
  then show ?thesis by (simp add: lag_step_def lag_kept_def Let_def)
next
  case True
  then have five: "5 \<le> length (fst (shifted xc yc l))" by (simp add: lag_kept_def)
  have "pearsonr (fst (shifted xc yc l)) (snd (shifted xc yc l)) = Inr (lag_r xc yc l)"
    using five shifted_lengths [OF assms, of l] by (simp add: pearsonr_def lag_r_def)
  with True five show ?thesis
    by (simp add: lag_step_def Let_def split: option.splits)
qed

lemma best_of_append: "best_of (es @ fs) b = best_of fs (best_of es b)"
  by (induction es b rule: best_of.induct) simp_all

lemma lag_loop_eq:
  assumes "length xc = length yc"
  shows "lag_loop xc yc ls (bl, bc, res) =
     Inr (fst (best_of (profile_of xc yc ls) (bl, bc)),
          snd (best_of (profile_of xc yc ls) (bl, bc)),
          res @ profile_of xc yc ls)"
proof (induction ls arbitrary: bl bc res)
  case Nil
  then show ?case by (simp add: profile_of_def)
next
  case (Cons l ls)
  show ?case
  proof (cases "lag_kept xc yc l")
    case False
    then show ?thesis
      using Cons.IH by (simp add: lag_step_eq [OF assms] profile_of_def)
  next
    case True
    let ?e = "\<lparr>lag = l, lag_correlation = lag_r xc yc l\<rparr>"
    obtain bl' bc' where b: "best_of [?e] (bl, bc) = (bl', bc')" by fastforce
    have p: "profile_of xc yc (l # ls) = ?e # profile_of xc yc ls"
      using True by (simp add: profile_of_def)
    have "best_of (profile_of xc yc (l # ls)) (bl, bc) = best_of (profile_of xc yc ls) (bl', bc')"
      using best_of_append [of "[?e]" "profile_of xc yc ls" "(bl, bc)"] b p by simp
    then show ?thesis
      using True b Cons.IH [of bl' bc' "res @ [?e]"]
      by (simp add: lag_step_eq [OF assms] p)
  qed
qed

lemma compute_lagged_correlation_eq:
  assumes "compute_lagged_correlation x y L = Inr (Lagged bl bc prof)"
  shows "prof = profile_of (map fst (clean_pairs x y)) (map snd (clean_pairs x y)) [- L..L]
     \<and> (bl, bc) = best_of prof (0, 0)
     \<and> int (length (clean_pairs x y)) \<ge> L + 5"
  using assms lag_loop_eq [OF length_clean, of x y "[- L..L]" 0 0 "[]"]
  by (auto simp: compute_lagged_correlation_def Let_def split: option.splits if_splits)

lemma compute_correlations_eq:
  assumes "compute_correlations x y = Inr (Correlation pr sr n)"
  shows "pr = pearson_stat (map fst (clean_pairs x y)) (map snd (clean_pairs x y))
     \<and> n = length (clean_pairs x y) \<and> 5 \<le> n"
  using assms
  by (auto simp: compute_correlations_def Let_def pearsonr_def
      split: option.splits if_splits sum.splits)

lemma filter_eq_singleton: "distinct xs \<Longrightarrow> a \<in> set xs \<Longrightarrow> filter (\<lambda>x. x = a) xs = [a]"
  by (induction xs) (auto simp: filter_empty_conv)

lemma profile_lag_zero:
  assumes "0 \<le> L" and "5 \<le> length xc"
  shows "filter (\<lambda>e. lag e = 0) (profile_of xc yc [- L..L])
           = [\<lparr>lag = 0, lag_correlation = pearson_stat xc yc\<rparr>]"
proof -
  have k: "lag_kept xc yc 0" using assms(2) by (simp add: lag_kept_def shifted_def)
  have "filter (\<lambda>e. lag e = 0) (profile_of xc yc [- L..L])
      = map (\<lambda>l. \<lparr>lag = l, lag_correlation = lag_r xc yc l\<rparr>)
          (filter (\<lambda>l. l = 0 \<and> lag_kept xc yc l) [- L..L])"
    by (simp add: profile_of_def filter_map comp_def conj_commute)
  also have "filter (\<lambda>l. l = 0 \<and> lag_kept xc yc l) [- L..L] = filter (\<lambda>l. l = 0) [- L..L]"
    using k by (intro filter_cong) auto
  also have "\<dots> = [0]"
    using assms(1) by (intro filter_eq_singleton) auto
  finally show ?thesis by (simp add: lag_r_def shifted_def)
qed

text \<open>
  C3. When the unlagged correlation and the lagged analysis (with a non-negative
  \<^verbatim>\<open>max_lag\<close>) of a pair of series are both available, the lag profile has exactly one
  entry at lag 0, and its correlation is the unlagged Pearson coefficient of the same
  null-cleaned pair (both NaN when an input is constant).
\<close>

theorem lag_zero_is_unlagged_pearson:
  assumes "compute_correlations x y = Inr (Correlation pr sr n)"
    and "compute_lagged_correlation x y max_lag = Inr (Lagged bl bc prof)"
    and "0 \<le> max_lag"
  shows "map lag_correlation (filter (\<lambda>e. lag e = 0) prof) = [pr]"
proof -
  let ?xc = "map fst (clean_pairs x y)" and ?yc = "map snd (clean_pairs x y)"
  from compute_correlations_eq [OF assms(1)]
  have pr: "pr = pearson_stat ?xc ?yc" and five: "5 \<le> length ?xc" by simp_all
  from compute_lagged_correlation_eq [OF assms(2)]
  have "prof = profile_of ?xc ?yc [- max_lag..max_lag]" by simp
  then show ?thesis
    using profile_lag_zero [OF assms(3) five, of ?yc] pr by simp
qed

lemma compute_correlations_runs:
  assumes "length x = length y" and "5 \<le> length (clean_pairs x y)"
  shows "\<exists>sr. compute_correlations x y
           = Inr (Correlation (pearson_stat (map fst (clean_pairs x y)) (map snd (clean_pairs x y)))
                    sr (length (clean_pairs x y)))"
  using assms
  by (simp add: compute_correlations_def shape_error_def Let_def pearsonr_def spearmanr_def
        rankdata_def)

lemma compute_lagged_correlation_runs:
  assumes "length x = length y"
  shows "compute_lagged_correlation x y L =
     (if int (length (clean_pairs x y)) < L + 5 then Inr LaggedUnavailable
      else Inr (Lagged
             (fst (best_of (profile_of (map fst (clean_pairs x y)) (map snd (clean_pairs x y))
                      [- L..L]) (0, 0)))
             (snd (best_of (profile_of (map fst (clean_pairs x y)) (map snd (clean_pairs x y))
                      [- L..L]) (0, 0)))
             (profile_of (map fst (clean_pairs x y)) (map snd (clean_pairs x y)) [- L..L])))"
  using assms lag_loop_eq [OF length_clean, of x y "[- L..L]" 0 0 "[]"]
  by (simp add: compute_lagged_correlation_def shape_error_def Let_def)

theorem lag_zero_is_unlagged_pearson_witness:
  "\<exists>pr sr n bl bc prof.
     compute_correlations [Some 1, Some 2, Some 3, None, Some 5, Some 6, Some 7]
        [Some 2, Some 1, Some 4, Some 3, Some 6, Some 5, Some 8] = Inr (Correlation pr sr n)
     \<and> compute_lagged_correlation [Some 1, Some 2, Some 3, None, Some 5, Some 6, Some 7]
        [Some 2, Some 1, Some 4, Some 3, Some 6, Some 5, Some 8] 1 = Inr (Lagged bl bc prof)
     \<and> n = 6 \<and> map lag prof = [- 1, 0, 1]
     \<and> map lag_correlation (filter (\<lambda>e. lag e = 0) prof) = [pr]"
proof -
  let ?x = "[Some 1, Some 2, Some 3, None, Some 5, Some 6, Some (7::real)]"
  let ?y = "[Some 2, Some 1, Some 4, Some 3, Some 6, Some 5, Some (8::real)]"
  have cp: "clean_pairs ?x ?y = [(1, 2), (2, 1), (3, 4), (5, 6), (6, 5), (7, 8)]"
    by (simp add: clean_pairs_def)
  from compute_correlations_runs [of ?x ?y] obtain pr sr
    where c: "compute_correlations ?x ?y = Inr (Correlation pr sr 6)"
    by (auto simp: cp)
  from compute_lagged_correlation_runs [of ?x ?y 1] obtain bl bc
    where l: "compute_lagged_correlation ?x ?y 1
      = Inr (Lagged bl bc (profile_of [1, 2, 3, 5, 6, 7] [2, 1, 4, 6, 5, 8] [- 1..1]))"
    by (auto simp: cp)
  have lags: "map lag (profile_of [1, 2, 3, 5, 6, 7] [2, 1, 4, 6, 5, 8] [- 1..1]) = [- 1, 0, 1]"
    by (simp add: profile_of_def upto_rec1 lag_kept_def shifted_def comp_def)
  from lag_zero_is_unlagged_pearson [OF c l]
  have z: "map lag_correlation (filter (\<lambda>e. lag e = 0)
          (profile_of [1, 2, 3, 5, 6, 7] [2, 1, 4, 6, 5, 8] [- 1..1])) = [pr]"
    by simp
  show ?thesis
    by (intro exI conjI) (rule c, rule l, rule refl, rule lags, rule z)
qed

lemma pearson_stat_bounded: "pearson_stat xs ys = Some v \<Longrightarrow> \<bar>v\<bar> \<le> 1"
  by (auto simp: pearson_stat_def clip_def Let_def split: if_splits)

lemma dot_self: "dot a a = sum_list (map (\<lambda>v. v * v) a)"
  by (induction a) (simp_all add: dot_def)

lemma dot_self_nonneg: "0 \<le> dot a a"
  unfolding dot_self by (rule sum_list_nonneg) auto

lemma dot_self_zero: "dot a a = 0 \<Longrightarrow> \<forall>v\<in>set a. v = 0"
proof (induction a)
  case Nil
  then show ?case by simp
next
  case (Cons u a)
  have "0 \<le> u * u" by simp
  moreover have "0 \<le> dot a a" by (rule dot_self_nonneg)
  moreover have "u * u + dot a a = 0" using Cons.prems by (simp add: dot_self)
  ultimately have "u * u = 0" "dot a a = 0" by linarith+
  with Cons.IH show ?case by simp
qed

lemma dot_centered_pos:
  assumes "\<not> is_constant xs"
  shows "0 < dot (centered xs) (centered xs)"
proof (rule ccontr)
  assume "\<not> 0 < dot (centered xs) (centered xs)"
  with dot_self_nonneg [of "centered xs"] have "dot (centered xs) (centered xs) = 0"
    by linarith
  then have "\<forall>v\<in>set (centered xs). v = 0" by (rule dot_self_zero)
  then have all: "\<forall>x\<in>set xs. x = mean xs" by (simp add: centered_def)
  have "is_constant xs"
  proof (cases xs)
    case Nil
    then show ?thesis by (simp add: is_constant_def)
  next
    case (Cons a as)
    with all have "hd xs = mean xs" by simp
    with all show ?thesis by (simp add: is_constant_def list_all_iff)
  qed
  with assms show False by simp
qed

lemma sum_list_uminus: "sum_list (map uminus xs) = - sum_list (xs :: real list)"
  by (induction xs) simp_all

lemma centered_uminus: "centered (map uminus xs) = map uminus (centered xs)"
  by (simp add: centered_def mean_def sum_list_uminus)

lemma dot_uminus_right: "dot a (map uminus a) = - dot a a"
  by (induction a) (simp_all add: dot_def)

lemma dot_uminus_both: "dot (map uminus a) (map uminus a) = dot a a"
  by (induction a) (simp_all add: dot_def)

lemma is_constant_uminus: "is_constant (map uminus xs) = is_constant xs"
  by (cases xs) (auto simp: is_constant_def list_all_iff)

lemma pearson_stat_negated:
  assumes "\<not> is_constant xs"
  shows "pearson_stat xs (map uminus xs) = Some (- 1)"
proof -
  let ?D = "dot (centered xs) (centered xs)"
  have pos: "0 < ?D" using assms by (rule dot_centered_pos)
  have "dot (centered xs) (centered (map uminus xs))
          / (sqrt ?D * sqrt (dot (centered (map uminus xs)) (centered (map uminus xs)))) = - 1"
    using pos by (simp add: centered_uminus dot_uminus_right dot_uminus_both)
  then show ?thesis
    using assms by (simp add: pearson_stat_def is_constant_uminus Let_def clip_def)
qed

lemma clean_pairs_no_nulls:
  "clean_pairs (map Some xs) (map (\<lambda>v. Some (f v)) xs) = map (\<lambda>v. (v, f v)) xs"
  by (induction xs) (simp_all add: clean_pairs_def)

lemma best_of_mono:
  "best_of es (bl, bc) = (bl', bc') \<Longrightarrow> \<bar>bc\<bar> \<le> \<bar>bc'\<bar>"
proof (induction es arbitrary: bl bc)
  case Nil
  then show ?case by simp
next
  case (Cons e es)
  show ?case
  proof (cases "lag_correlation e")
    case None
    with Cons show ?thesis by simp
  next
    case (Some v)
    show ?thesis
    proof (cases "\<bar>v\<bar> > \<bar>bc\<bar>")
      case True
      with Some Cons.prems have "best_of es (lag e, v) = (bl', bc')" by simp
      from Cons.IH [OF this] True show ?thesis by linarith
    next
      case False
      with Some Cons show ?thesis by simp
    qed
  qed
qed

lemma best_of_first_maximum:
  assumes "best_of es (bl, bc) = (bl', bc')"
  shows "(bl', bc') = (bl, bc)
     \<or> (\<bar>bc\<bar> < \<bar>bc'\<bar>
        \<and> (\<exists>es1 es2. es = es1 @ \<lparr>lag = bl', lag_correlation = Some bc'\<rparr> # es2
              \<and> (\<forall>e\<in>set es1. \<forall>v. lag_correlation e = Some v \<longrightarrow> \<bar>v\<bar> < \<bar>bc'\<bar>)))"
  using assms
proof (induction es arbitrary: bl bc)
  case Nil
  then show ?case by simp
next
  case (Cons e es)
  obtain l1 c1 where b1: "(case lag_correlation e of None \<Rightarrow> (bl, bc)
       | Some v \<Rightarrow> if \<bar>v\<bar> > \<bar>bc\<bar> then (lag e, v) else (bl, bc)) = (l1, c1)"
    by fastforce
  with Cons.prems have rest: "best_of es (l1, c1) = (bl', bc')" by simp
  have c1: "\<bar>bc\<bar> \<le> \<bar>c1\<bar>" using b1 by (auto split: option.splits if_splits)
  have ev: "\<bar>v\<bar> \<le> \<bar>c1\<bar>" if "lag_correlation e = Some v" for v
    using b1 that by (auto split: if_splits)
  from Cons.IH [OF rest] show ?case
  proof
    assume same: "(bl', bc') = (l1, c1)"
    show ?thesis
    proof (cases "(l1, c1) = (bl, bc)")
      case True
      with same show ?thesis by simp
    next
      case False
      with b1 obtain v where v: "lag_correlation e = Some v" "\<bar>v\<bar> > \<bar>bc\<bar>" "l1 = lag e" "c1 = v"
        by (auto split: option.splits if_splits)
      then have "e = \<lparr>lag = bl', lag_correlation = Some bc'\<rparr>" using same by simp
      then have "e # es = [] @ \<lparr>lag = bl', lag_correlation = Some bc'\<rparr> # es" by simp
      moreover have "\<bar>bc\<bar> < \<bar>bc'\<bar>" using v same by simp
      ultimately show ?thesis by (metis empty_iff list.set(1))
    qed
  next
    assume "\<bar>c1\<bar> < \<bar>bc'\<bar>
        \<and> (\<exists>es1 es2. es = es1 @ \<lparr>lag = bl', lag_correlation = Some bc'\<rparr> # es2
              \<and> (\<forall>e\<in>set es1. \<forall>v. lag_correlation e = Some v \<longrightarrow> \<bar>v\<bar> < \<bar>bc'\<bar>))"
    then obtain es1 es2 where gt: "\<bar>c1\<bar> < \<bar>bc'\<bar>"
      and split: "es = es1 @ \<lparr>lag = bl', lag_correlation = Some bc'\<rparr> # es2"
      and before: "\<forall>e\<in>set es1. \<forall>v. lag_correlation e = Some v \<longrightarrow> \<bar>v\<bar> < \<bar>bc'\<bar>"
      by blast
    have "e # es = (e # es1) @ \<lparr>lag = bl', lag_correlation = Some bc'\<rparr> # es2"
      using split by simp
    moreover have "\<forall>e'\<in>set (e # es1). \<forall>v. lag_correlation e' = Some v \<longrightarrow> \<bar>v\<bar> < \<bar>bc'\<bar>"
      using before ev gt by fastforce
    moreover have "\<bar>bc\<bar> < \<bar>bc'\<bar>" using c1 gt by linarith
    ultimately show ?thesis by blast
  qed
qed

lemma best_of_bounds_entries:
  "best_of es (bl, bc) = (bl', bc') \<Longrightarrow> e \<in> set es \<Longrightarrow> lag_correlation e = Some v
     \<Longrightarrow> \<bar>v\<bar> \<le> \<bar>bc'\<bar>"
proof (induction es arbitrary: bl bc)
  case Nil
  then show ?case by simp
next
  case (Cons a es)
  obtain l1 c1 where b1: "(case lag_correlation a of None \<Rightarrow> (bl, bc)
       | Some v \<Rightarrow> if \<bar>v\<bar> > \<bar>bc\<bar> then (lag a, v) else (bl, bc)) = (l1, c1)"
    by fastforce
  with Cons.prems have rest: "best_of es (l1, c1) = (bl', bc')" by simp
  show ?case
  proof (cases "e = a")
    case True
    with Cons.prems(3) b1 have "\<bar>v\<bar> \<le> \<bar>c1\<bar>" by (auto split: if_splits)
    with best_of_mono [OF rest] show ?thesis by linarith
  next
    case False
    with Cons.prems(2) have "e \<in> set es" by simp
    from Cons.IH [OF rest this Cons.prems(3)] show ?thesis .
  qed
qed

lemma profile_lags_increasing: "sorted_wrt (<) (map lag (profile_of xc yc [i..j]))"
proof -
  have "map lag (profile_of xc yc [i..j]) = filter (lag_kept xc yc) [i..j]"
    by (simp add: profile_of_def comp_def)
  moreover have "sorted_wrt (<) [i..j]"
    by (simp add: strict_sorted_iff)
  ultimately show ?thesis by (simp add: sorted_wrt_filter)
qed

lemma profile_entries_bounded:
  "e \<in> set (profile_of xc yc ls) \<Longrightarrow> lag_correlation e = Some v \<Longrightarrow> \<bar>v\<bar> \<le> 1"
  by (auto simp: profile_of_def lag_r_def dest: pearson_stat_bounded)

lemma best_of_profile_with_perfect_lag_zero:
  assumes prof: "prof = profile_of xc yc [i..j]"
    and zero: "\<lparr>lag = 0, lag_correlation = Some (- 1)\<rparr> \<in> set prof"
    and best: "best_of prof (0, 0) = (bl, bc)"
  shows "bl \<le> 0 \<and> \<bar>bc\<bar> = 1 \<and> \<lparr>lag = bl, lag_correlation = Some bc\<rparr> \<in> set prof
     \<and> (\<forall>e\<in>set prof. lag e < bl \<longrightarrow> (\<forall>v. lag_correlation e = Some v \<longrightarrow> \<bar>v\<bar> < 1))"
proof -
  let ?Z = "\<lparr>lag = 0, lag_correlation = Some (- 1 :: real)\<rparr>"
  let ?E = "\<lparr>lag = bl, lag_correlation = Some bc\<rparr>"
  have ge: "1 \<le> \<bar>bc\<bar>"
    using best_of_bounds_entries [OF best zero, of "- 1"] by simp
  from best_of_first_maximum [OF best] ge
  obtain es1 es2 where split: "prof = es1 @ ?E # es2"
    and before: "\<forall>e\<in>set es1. \<forall>v. lag_correlation e = Some v \<longrightarrow> \<bar>v\<bar> < \<bar>bc\<bar>"
    by auto
  have mem: "?E \<in> set prof" using split by simp
  then have le: "\<bar>bc\<bar> \<le> 1"
    using profile_entries_bounded [of ?E xc yc "[i..j]" bc] prof by simp
  with ge have one: "\<bar>bc\<bar> = 1" by linarith
  have srt: "sorted_wrt (<) (map lag (es1 @ ?E # es2))"
    using profile_lags_increasing [of xc yc i j] prof split by simp
  then have after: "\<forall>e\<in>set es2. bl < lag e"
    by (auto simp: sorted_wrt_append)
  have Z1: "?Z \<notin> set es1"
    using before one by fastforce
  have "bl \<le> 0"
  proof -
    from zero split Z1 have "?Z = ?E \<or> ?Z \<in> set es2" by auto
    then show ?thesis
    proof
      assume "?Z = ?E"
      then show ?thesis by simp
    next
      assume "?Z \<in> set es2"
      with after have "bl < lag ?Z" by blast
      then show ?thesis by simp
    qed
  qed
  moreover have "\<forall>e\<in>set prof. lag e < bl \<longrightarrow> (\<forall>v. lag_correlation e = Some v \<longrightarrow> \<bar>v\<bar> < 1)"
  proof (intro ballI impI allI)
    fix e v assume e: "e \<in> set prof" "lag e < bl" "lag_correlation e = Some v"
    from e(1) split have "e \<in> set es1 \<or> e = ?E \<or> e \<in> set es2" by auto
    with e(2) after have "e \<in> set es1" by fastforce
    with before e(3) one show "\<bar>v\<bar> < 1" by fastforce
  qed
  ultimately show ?thesis using one mem by blast
qed

text \<open>
  C2 (amended). For columns \<open>y = -x\<close> without nulls, on at least 5 rows and with \<open>x\<close> not
  constant, the Pearson coefficient is \<open>-1\<close>. The lagged analysis of the pipeline
  (\<^verbatim>\<open>max_lag=5\<close>) is unavailable below 10 rows. From 10 rows on, the entry of the lag
  profile at lag 0 is \<open>-1\<close>, the best correlation has absolute value 1, and the best lag
  is the first lag of \<open>-5..0\<close> whose correlation has absolute value 1: it is 0 unless a
  negative lag is perfectly correlated as well.
\<close>

theorem anti_correlated_columns:
  fixes xs :: "real list"
  defines "x \<equiv> map Some xs" and "y \<equiv> map (\<lambda>v. Some (- v)) xs"
  assumes rows: "5 \<le> length xs" and varies: "\<not> is_constant xs"
  shows "(\<exists>sr. compute_correlations x y = Inr (Correlation (Some (- 1)) sr (length xs)))
     \<and> (length xs < 10 \<longrightarrow> compute_lagged_correlation x y 5 = Inr LaggedUnavailable)
     \<and> (10 \<le> length xs \<longrightarrow>
          (\<exists>bl bc prof. compute_lagged_correlation x y 5 = Inr (Lagged bl bc prof)
             \<and> map lag_correlation (filter (\<lambda>e. lag e = 0) prof) = [Some (- 1)]
             \<and> bl \<le> 0 \<and> \<bar>bc\<bar> = 1 \<and> \<lparr>lag = bl, lag_correlation = Some bc\<rparr> \<in> set prof
             \<and> (\<forall>e\<in>set prof. lag e < bl \<longrightarrow>
                  (\<forall>v. lag_correlation e = Some v \<longrightarrow> \<bar>v\<bar> < 1))))"
proof -
  have len: "length x = length y" by (simp add: x_def y_def)
  have cp: "clean_pairs x y = map (\<lambda>v. (v, - v)) xs"
    unfolding x_def y_def by (rule clean_pairs_no_nulls)
  have xc: "map fst (clean_pairs x y) = xs" by (simp add: cp comp_def)
  have yc: "map snd (clean_pairs x y) = map uminus xs" by (simp add: cp comp_def)
  have n: "length (clean_pairs x y) = length xs" by (simp add: cp)
  have r0: "pearson_stat xs (map uminus xs) = Some (- 1)"
    using varies by (rule pearson_stat_negated)
  have one: "\<exists>sr. compute_correlations x y = Inr (Correlation (Some (- 1)) sr (length xs))"
    using compute_correlations_runs [OF len] rows by (simp add: xc yc n r0)
  have two: "length xs < 10 \<longrightarrow> compute_lagged_correlation x y 5 = Inr LaggedUnavailable"
    by (simp add: compute_lagged_correlation_runs [OF len] n)
  have three: "10 \<le> length xs \<longrightarrow>
          (\<exists>bl bc prof. compute_lagged_correlation x y 5 = Inr (Lagged bl bc prof)
             \<and> map lag_correlation (filter (\<lambda>e. lag e = 0) prof) = [Some (- 1)]
             \<and> bl \<le> 0 \<and> \<bar>bc\<bar> = 1 \<and> \<lparr>lag = bl, lag_correlation = Some bc\<rparr> \<in> set prof
             \<and> (\<forall>e\<in>set prof. lag e < bl \<longrightarrow>
                  (\<forall>v. lag_correlation e = Some v \<longrightarrow> \<bar>v\<bar> < 1)))"
  proof
    assume ten: "10 \<le> length xs"
    define prof where "prof = profile_of xs (map uminus xs) [- 5..5]"
    obtain bl bc where best: "best_of prof (0, 0) = (bl, bc)" by fastforce
    have run: "compute_lagged_correlation x y 5 = Inr (Lagged bl bc prof)"
      using ten best by (simp add: compute_lagged_correlation_runs [OF len] n xc yc prof_def)
    have f0: "filter (\<lambda>e. lag e = 0) prof = [\<lparr>lag = 0, lag_correlation = Some (- 1)\<rparr>]"
      unfolding prof_def using profile_lag_zero [of 5 xs "map uminus xs"] rows
      by (simp add: r0)
    have "\<lparr>lag = 0, lag_correlation = Some (- 1)\<rparr> \<in> set (filter (\<lambda>e. lag e = 0) prof)"
      by (simp add: f0)
    then have z: "\<lparr>lag = 0, lag_correlation = Some (- 1)\<rparr> \<in> set prof"
      by simp
    have m0: "map lag_correlation (filter (\<lambda>e. lag e = 0) prof) = [Some (- 1)]"
      by (simp add: f0)
    from best_of_profile_with_perfect_lag_zero [OF prof_def z best]
    have k1: "bl \<le> 0" and k2: "\<bar>bc\<bar> = 1"
      and k3: "\<lparr>lag = bl, lag_correlation = Some bc\<rparr> \<in> set prof"
      and k4: "\<forall>e\<in>set prof. lag e < bl \<longrightarrow>
                  (\<forall>v. lag_correlation e = Some v \<longrightarrow> \<bar>v\<bar> < 1)"
      by blast+
    show "\<exists>bl bc prof. compute_lagged_correlation x y 5 = Inr (Lagged bl bc prof)
             \<and> map lag_correlation (filter (\<lambda>e. lag e = 0) prof) = [Some (- 1)]
             \<and> bl \<le> 0 \<and> \<bar>bc\<bar> = 1 \<and> \<lparr>lag = bl, lag_correlation = Some bc\<rparr> \<in> set prof
             \<and> (\<forall>e\<in>set prof. lag e < bl \<longrightarrow>
                  (\<forall>v. lag_correlation e = Some v \<longrightarrow> \<bar>v\<bar> < 1))"
      by (intro exI conjI) (rule run, rule m0, rule k1, rule k2, rule k3, rule k4)
  qed
  show ?thesis
    by (intro conjI) (rule one, rule two, rule three)
qed

theorem anti_correlated_columns_witness:
  "(\<exists>sr. compute_correlations (map Some [1, 2, 3, 4, 5]) (map (\<lambda>v. Some (- v)) [1, 2, 3, 4, 5])
            = Inr (Correlation (Some (- 1)) sr 5))
   \<and> compute_lagged_correlation (map Some [1, 2, 3, 4, 5]) (map (\<lambda>v. Some (- v)) [1, 2, 3, 4, 5]) 5
       = Inr LaggedUnavailable
   \<and> (\<exists>bl bc prof.
         compute_lagged_correlation (map Some [1, 3, 2, 5, 4, 7, 6, 9, 8, 10])
           (map (\<lambda>v. Some (- v)) [1, 3, 2, 5, 4, 7, 6, 9, 8, 10]) 5 = Inr (Lagged bl bc prof)
         \<and> map lag_correlation (filter (\<lambda>e. lag e = 0) prof) = [Some (- 1)]
         \<and> bl \<le> 0 \<and> \<bar>bc\<bar> = 1)"
proof -
  have a: "5 \<le> length [1, 2, 3, 4, 5::real]" by simp
  have b: "\<not> is_constant [1, 2, 3, 4, 5]" by (simp add: is_constant_def)
  have c: "5 \<le> length [1, 3, 2, 5, 4, 7, 6, 9, 8, 10::real]" by simp
  have d: "\<not> is_constant [1, 3, 2, 5, 4, 7, 6, 9, 8, 10]" by (simp add: is_constant_def)
  have l5: "length [1, 2, 3, 4, 5::real] = 5" by simp
  from anti_correlated_columns [OF a b, unfolded l5]
  have one: "\<exists>sr. compute_correlations (map Some [1, 2, 3, 4, 5])
            (map (\<lambda>v. Some (- v)) [1, 2, 3, 4, 5]) = Inr (Correlation (Some (- 1)) sr 5)"
    and two: "compute_lagged_correlation (map Some [1, 2, 3, 4, 5])
            (map (\<lambda>v. Some (- v)) [1, 2, 3, 4, 5]) 5 = Inr LaggedUnavailable"
    by simp_all
  from anti_correlated_columns [OF c d]
  have "\<exists>bl bc prof.
         compute_lagged_correlation (map Some [1, 3, 2, 5, 4, 7, 6, 9, 8, 10])
           (map (\<lambda>v. Some (- v)) [1, 3, 2, 5, 4, 7, 6, 9, 8, 10]) 5 = Inr (Lagged bl bc prof)
         \<and> map lag_correlation (filter (\<lambda>e. lag e = 0) prof) = [Some (- 1)]
         \<and> bl \<le> 0 \<and> \<bar>bc\<bar> = 1
         \<and> \<lparr>lag = bl, lag_correlation = Some bc\<rparr> \<in> set prof
         \<and> (\<forall>e\<in>set prof. lag e < bl \<longrightarrow>
                  (\<forall>v. lag_correlation e = Some v \<longrightarrow> \<bar>v\<bar> < 1))"
    by simp
  then have three: "\<exists>bl bc prof.
         compute_lagged_correlation (map Some [1, 3, 2, 5, 4, 7, 6, 9, 8, 10])
           (map (\<lambda>v. Some (- v)) [1, 3, 2, 5, 4, 7, 6, 9, 8, 10]) 5 = Inr (Lagged bl bc prof)
         \<and> map lag_correlation (filter (\<lambda>e. lag e = 0) prof) = [Some (- 1)]
         \<and> bl \<le> 0 \<and> \<bar>bc\<bar> = 1"
    by (elim exE conjE) (intro exI conjI, assumption+)
  show ?thesis
    by (intro conjI) (rule one, rule two, rule three)
qed

lemma best_of_no_change:
  "\<forall>e\<in>set es. \<forall>v. lag_correlation e = Some v \<longrightarrow> \<bar>v\<bar> \<le> \<bar>bc\<bar> \<Longrightarrow> best_of es (bl, bc) = (bl, bc)"
  by (induction es) (auto split: option.splits)

lemma linear_lag_minus_five:
  "lag_r [1, 2, 3, 4, 5, 6, 7, 8, 9, 10] (map uminus [1, 2, 3, 4, 5, 6, 7, 8, 9, 10]) (- 5)
     = Some (- 1)"
  by (simp add: lag_r_def shifted_def pearson_stat_def is_constant_def centered_def mean_def
        dot_def clip_def Let_def)

text \<open>
  C2 as stated fails in three ways: with 5 rows the lagged analysis is unavailable, so no
  best lag is reported; a constant \<open>x\<close> gives a NaN coefficient; and for \<open>x = 1, ..., 10\<close>
  every lag is perfectly anti-correlated, so the loop, which replaces the best lag only on
  a strictly larger \<open>|r|\<close>, reports the first lag, \<open>-5\<close>.
\<close>

theorem anti_correlated_columns_counterexample:
  "compute_lagged_correlation (map Some [1, 2, 3, 4, 5]) (map (\<lambda>v. Some (- v)) [1, 2, 3, 4, 5]) 5
       = Inr LaggedUnavailable
   \<and> (\<exists>sr. compute_correlations (map Some [2, 2, 2, 2, 2]) (map (\<lambda>v. Some (- v)) [2, 2, 2, 2, 2])
              = Inr (Correlation None sr 5))
   \<and> (\<exists>prof. compute_lagged_correlation (map Some [1, 2, 3, 4, 5, 6, 7, 8, 9, 10])
                 (map (\<lambda>v. Some (- v)) [1, 2, 3, 4, 5, 6, 7, 8, 9, 10]) 5
              = Inr (Lagged (- 5) (- 1) prof))"
proof -
  let ?xs = "[1, 2, 3, 4, 5, 6, 7, 8, 9, 10 :: real]"
  have one: "compute_lagged_correlation (map Some [1, 2, 3, 4, 5])
      (map (\<lambda>v. Some (- v)) [1, 2, 3, 4, 5]) 5 = Inr LaggedUnavailable"
    by (simp add: compute_lagged_correlation_runs clean_pairs_def)
  have "pearson_stat [2, 2, 2, 2, 2] (map uminus [2, 2, 2, 2, 2]) = None"
    by (simp add: pearson_stat_def is_constant_def)
  with compute_correlations_runs
         [of "map Some [2, 2, 2, 2, 2]" "map (\<lambda>v. Some (- v)) [2, 2, 2, 2, 2]"]
  have two: "\<exists>sr. compute_correlations (map Some [2, 2, 2, 2, 2])
      (map (\<lambda>v. Some (- v)) [2, 2, 2, 2, 2]) = Inr (Correlation None sr 5)"
    by (simp add: clean_pairs_def eval_nat_numeral)
  have kept: "lag_kept ?xs (map uminus ?xs) (- 5)"
    by (simp add: lag_kept_def shifted_def)
  have up: "[- 5..5] = - 5 # [- 4..5]"
    by (simp add: upto_rec1)
  have prof: "profile_of ?xs (map uminus ?xs) [- 5..5]
      = \<lparr>lag = - 5, lag_correlation = Some (- 1)\<rparr> # profile_of ?xs (map uminus ?xs) [- 4..5]"
    unfolding up using kept linear_lag_minus_five by (simp add: profile_of_def)
  have rest: "best_of (profile_of ?xs (map uminus ?xs) [- 4..5]) (- 5, - 1) = (- 5, - 1)"
    by (rule best_of_no_change) (auto dest: profile_entries_bounded)
  have best: "best_of (profile_of ?xs (map uminus ?xs) [- 5..5]) (0, 0) = (- 5, - 1)"
    unfolding prof using rest by simp
  have cp: "map fst (clean_pairs (map Some ?xs) (map (\<lambda>v. Some (- v)) ?xs)) = ?xs"
    "map snd (clean_pairs (map Some ?xs) (map (\<lambda>v. Some (- v)) ?xs)) = map uminus ?xs"
    "length (clean_pairs (map Some ?xs) (map (\<lambda>v. Some (- v)) ?xs)) = 10"
    unfolding clean_pairs_no_nulls by (simp_all add: comp_def)
  have "compute_lagged_correlation (map Some ?xs) (map (\<lambda>v. Some (- v)) ?xs) 5
      = Inr (Lagged (- 5) (- 1) (profile_of ?xs (map uminus ?xs) [- 5..5]))"
  proof -
    have len: "length (map Some ?xs) = length (map (\<lambda>v. Some (- v)) ?xs)"
      by simp
    have ge: "\<not> int (length (clean_pairs (map Some ?xs) (map (\<lambda>v. Some (- v)) ?xs))) < 5 + 5"
      unfolding cp(3) by simp
    show ?thesis
      unfolding compute_lagged_correlation_runs [OF len]
      by (simp only: ge if_False cp(1,2) best fst_conv snd_conv)
  qed
  then have three: "\<exists>prof. compute_lagged_correlation (map Some ?xs)
      (map (\<lambda>v. Some (- v)) ?xs) 5 = Inr (Lagged (- 5) (- 1) prof)"
    by (rule exI)
  show ?thesis
    by (intro conjI) (rule one, rule two, rule three)
qed

section \<open>Properties of the sequential batch trend\<close>










section \<open>Properties of the relationship list\<close>

text \<open>
  What holds for every dataset: the list has at most 30 entries, each entry belongs to a
  pair of positions \<open>i < j\<close> among the first 15 numeric columns and has an available
  correlation, and the list is in descending order of \<open>|r|\<close> when no candidate has a NaN
  coefficient.
\<close>

lemma pairs_positions:
  "(a, b) \<in> set (pairs xs) \<Longrightarrow> \<exists>i j. i < j \<and> j < length xs \<and> a = xs ! i \<and> b = xs ! j"
proof (induction xs)
  case Nil
  then show ?case by simp
next
  case (Cons x xs)
  from Cons.prems have "(a = x \<and> b \<in> set xs) \<or> (a, b) \<in> set (pairs xs)" by auto
  then show ?case
  proof
    assume h: "a = x \<and> b \<in> set xs"
    then obtain k where "k < length xs" "b = xs ! k" by (auto simp: in_set_conv_nth)
    with h have "0 < Suc k \<and> Suc k < length (x # xs) \<and> a = (x # xs) ! 0 \<and> b = (x # xs) ! Suc k"
      by simp
    then show ?thesis by blast
  next
    assume "(a, b) \<in> set (pairs xs)"
    from Cons.IH [OF this] obtain i j where "i < j" "j < length xs" "a = xs ! i" "b = xs ! j"
      by blast
    then have "Suc i < Suc j \<and> Suc j < length (x # xs) \<and> a = (x # xs) ! Suc i
        \<and> b = (x # xs) ! Suc j"
      by simp
    then show ?thesis by blast
  qed
qed

lemma analyze_pair_entry:
  assumes "analyze_pair st cx cy = Inr (Some r)"
  shows "var_x r = cx \<and> var_y r = cy
     \<and> (\<exists>c1 c2 pr sr n. get_column (df st) cx = Inr c1 \<and> get_column (df st) cy = Inr c2
           \<and> compute_correlations (as_float (col_cells c1)) (as_float (col_cells c2))
               = Inr (Correlation pr sr n)
           \<and> correlation r = Correlation pr sr n)"
  using assms
  by (auto simp: analyze_pair_def Let_def split: sum.splits correlation.splits)

lemma relationship_loop_entries:
  "relationship_loop st ps = Inr rels \<Longrightarrow>
     length rels \<le> length ps
     \<and> (\<forall>r\<in>set rels. \<exists>p\<in>set ps. analyze_pair st (fst p) (snd p) = Inr (Some r))"
proof (induction ps arbitrary: rels)
  case Nil
  then show ?case by simp
next
  case (Cons p ps)
  obtain cx cy where p: "p = (cx, cy)" by (cases p)
  from Cons.prems p obtain entry rels' where e: "analyze_pair st cx cy = Inr entry"
    and l: "relationship_loop st ps = Inr rels'"
    and r: "rels = (case entry of None \<Rightarrow> rels' | Some r \<Rightarrow> r # rels')"
    by (auto split: sum.splits)
  from Cons.IH [OF l] have ih: "length rels' \<le> length ps"
    "\<forall>r\<in>set rels'. \<exists>p\<in>set ps. analyze_pair st (fst p) (snd p) = Inr (Some r)"
    by auto
  show ?case
  proof (cases entry)
    case None
    with r ih show ?thesis by auto
  next
    case (Some r0)
    with r e p ih show ?thesis by auto
  qed
qed

lemma mset_insort_py: "mset (insort_py f x ys) = add_mset x (mset ys)"
  by (induction ys) simp_all

lemma mset_sort_py: "mset (sort_py f ys) = mset ys"
  unfolding sort_py_def by (induction ys) (simp_all add: mset_insort_py)

lemma mset_sort_reverse_py: "sort_reverse_py f xs = Some ys \<Longrightarrow> mset ys = mset xs"
  by (auto simp: sort_reverse_py_def sort_ascending_py_def mset_sort_py split: if_splits)

lemma set_insort_py: "set (insort_py f x ys) = insert x (set ys)"
  using mset_insort_py [of f x ys] by (metis set_mset_add_mset_insert set_mset_mset)

lemma sorted_insort_py:
  assumes "f x \<noteq> None" and "\<forall>y\<in>set ys. f y \<noteq> None"
    and "sorted_wrt (\<lambda>a b. the (f a) \<le> the (f b)) ys"
  shows "sorted_wrt (\<lambda>a b. the (f a) \<le> the (f b)) (insort_py f x ys)"
  using assms
proof (induction ys)
  case Nil
  then show ?case by simp
next
  case (Cons y ys)
  from Cons.prems obtain u v where u: "f x = Some u" and v: "f y = Some v" by auto
  show ?case
  proof (cases "v < u")
    case True
    then have ins: "insort_py f x (y # ys) = y # insort_py f x ys"
      by (simp add: float_lt_def u v)
    have "sorted_wrt (\<lambda>a b. the (f a) \<le> the (f b)) (insort_py f x ys)"
      using Cons by simp
    moreover have "\<forall>z\<in>set (insort_py f x ys). the (f y) \<le> the (f z)"
      using Cons.prems(3) True u v by (auto simp: set_insort_py)
    ultimately show ?thesis unfolding ins by simp
  next
    case False
    then have ins: "insort_py f x (y # ys) = x # y # ys"
      by (simp add: float_lt_def u v)
    have "\<forall>z\<in>set (y # ys). the (f x) \<le> the (f z)"
      using Cons.prems(3) False u v by fastforce
    with Cons.prems(3) show ?thesis unfolding ins by simp
  qed
qed

lemma sorted_sort_py:
  assumes "\<forall>x\<in>set xs. f x \<noteq> None"
  shows "sorted_wrt (\<lambda>a b. the (f a) \<le> the (f b)) (sort_py f xs)"
  using assms
proof (induction xs)
  case Nil
  then show ?case by (simp add: sort_py_def)
next
  case (Cons x xs)
  have s: "sort_py f (x # xs) = insort_py f x (sort_py f xs)"
    by (simp add: sort_py_def)
  have m: "set (sort_py f xs) = set xs"
    using mset_sort_py [of f xs] by (metis set_mset_mset)
  show ?case
    unfolding s using Cons m by (intro sorted_insort_py) auto
qed

lemma sorted_sort_reverse_py:
  assumes "\<forall>x\<in>set xs. f x \<noteq> None"
  shows "\<exists>ys. sort_reverse_py f xs = Some ys
     \<and> sorted_wrt (\<lambda>a b. the (f b) \<le> the (f a)) ys"
proof -
  have "sorted_wrt (\<lambda>a b. the (f a) \<le> the (f b)) (sort_py f (rev xs))"
    using assms by (intro sorted_sort_py) simp
  then have "sorted_wrt (\<lambda>a b. the (f b) \<le> the (f a)) (rev (sort_py f (rev xs)))"
    by (simp add: sorted_wrt_rev)
  moreover have "sort_reverse_py f xs = Some (rev (sort_py f (rev xs)))"
    using assms by (simp add: sort_reverse_py_def sort_ascending_py_def list_all_iff)
  ultimately show ?thesis by blast
qed

lemma relationships_structure:
  assumes "analyze_relationships st = Inr (Some rels)"
  shows "length rels \<le> 30
     \<and> (\<forall>r\<in>set rels. \<exists>i j. i < j \<and> j < length (take 15 (numeric_cols st))
            \<and> var_x r = take 15 (numeric_cols st) ! i
            \<and> var_y r = take 15 (numeric_cols st) ! j
            \<and> correlation r \<noteq> CorrUnavailable)"
proof (cases "length (numeric_cols st) < 2")
  case True
  with assms show ?thesis by (simp add: analyze_relationships_def)
next
  case False
  let ?cols = "take 15 (numeric_cols st)"
  from False assms obtain cands sorted_cands
    where loop: "relationship_loop st (pairs ?cols) = Inr cands"
      and srt: "sort_reverse_py strength cands = Some sorted_cands"
      and rels: "rels = take 30 sorted_cands"
    by (auto simp: analyze_relationships_def split: sum.splits)
  have len: "length rels \<le> 30" by (simp add: rels)
  have sub: "set rels \<subseteq> set cands"
  proof -
    have "set rels \<subseteq> set sorted_cands"
      unfolding rels by (rule set_take_subset)
    also have "\<dots> = set cands"
      using mset_sort_reverse_py [OF srt] by (metis set_mset_mset)
    finally show ?thesis .
  qed
  have each: "\<exists>i j. i < j \<and> j < length ?cols \<and> var_x r = ?cols ! i \<and> var_y r = ?cols ! j
            \<and> correlation r \<noteq> CorrUnavailable" if "r \<in> set rels" for r
  proof -
    from that sub have "r \<in> set cands" by blast
    with relationship_loop_entries [OF loop] obtain p
      where p: "p \<in> set (pairs ?cols)" "analyze_pair st (fst p) (snd p) = Inr (Some r)"
      by blast
    from analyze_pair_entry [OF p(2)]
    have v: "var_x r = fst p" "var_y r = snd p" "correlation r \<noteq> CorrUnavailable"
      by auto
    from p(1) have "(fst p, snd p) \<in> set (pairs ?cols)" by simp
    from pairs_positions [OF this] v show ?thesis by metis
  qed
  from len each show ?thesis by blast
qed

lemma relationships_sorted_without_nan:
  assumes "relationship_loop st (pairs (take 15 (numeric_cols st))) = Inr cands"
    and "\<forall>r\<in>set cands. strength r \<noteq> None"
  shows "\<exists>rels. analyze_relationships st = Inr (Some rels)
     \<and> sorted_wrt (\<lambda>a b. the (strength b) \<le> the (strength a)) rels"
proof (cases "length (numeric_cols st) < 2")
  case True
  then show ?thesis by (simp add: analyze_relationships_def)
next
  case False
  from sorted_sort_reverse_py [OF assms(2)] obtain ys
    where ys: "sort_reverse_py strength cands = Some ys"
      and srt: "sorted_wrt (\<lambda>a b. the (strength b) \<le> the (strength a)) ys"
    by blast
  from False assms(1) ys have "analyze_relationships st = Inr (Some (take 30 ys))"
    by (simp add: analyze_relationships_def)
  moreover have "sorted_wrt (\<lambda>a b. the (strength b) \<le> the (strength a)) (take 30 ys)"
    using srt by (rule sorted_wrt_take)
  ultimately show ?thesis by blast
qed

lemma constant_column_keywords:
  "\<not> has_batch_keyword ''A''" "\<not> has_batch_keyword ''B''"
  "\<not> has_batch_keyword ''C''" "\<not> has_batch_keyword ''D''"
  "\<not> has_time_keyword ''A''" "\<not> has_time_keyword ''B''"
  "\<not> has_time_keyword ''C''" "\<not> has_time_keyword ''D''"
  by code_simp+

lemma constant_column_roles:
  "infer_columns no_parse (init constant_column_frame) =
     \<lparr>df = constant_column_frame, time_col = None, batch_col = None,
      numeric_cols = [''A'', ''B'', ''C'', ''D''], categorical_cols = []\<rparr>"
  by (simp add: infer_columns_def init_def constant_column_frame_def infer_batch_by_name_def
        infer_batch_by_pattern_def coerce_columns_def coerce_column_def infer_time_def
        classify_remaining_def constant_column_keywords is_batch_like_def is_float_dtype_def
        is_numeric_dtype_def time_candidate_def nrows_def)

lemma compute_correlations_value:
  assumes "length x = length y" and "5 \<le> length (clean_pairs x y)"
  shows "compute_correlations x y
     = Inr (Correlation (pearson_stat (map fst (clean_pairs x y)) (map snd (clean_pairs x y)))
              (pearson_stat (rankdata (map fst (clean_pairs x y)))
                            (rankdata (map snd (clean_pairs x y))))
              (length (clean_pairs x y)))"
  using assms
  by (simp add: compute_correlations_def shape_error_def Let_def pearsonr_def spearmanr_def
        rankdata_def)

lemma constant_column_ranks:
  "rankdata [- 2, - 1, 0, 1, 2] = [1, 2, 3, 4, 5]"
  "rankdata [3, 3, 3, 3, 3] = [3, 3, 3, 3, 3]"
  "rankdata [1, - 2, 0, 2, - 1] = [4, 1, 3, 5, 2]"
  by (simp_all add: rankdata_def)

lemma constant_column_pearson:
  "pearson_stat [- 2, - 1, 0, 1, 2] [3, 3, 3, 3, 3] = None"
  "pearson_stat [- 2, - 1, 0, 1, 2] [1, - 2, 0, 2, - 1] = Some 0"
  "pearson_stat [3, 3, 3, 3, 3] [1, - 2, 0, 2, - 1] = None"
  "pearson_stat [1, - 2, 0, 2, - 1] [1, - 2, 0, 2, - 1] = Some 1"
  "pearson_stat [1, 2, 3, 4, 5] [3, 3, 3, 3, 3] = None"
  "pearson_stat [1, 2, 3, 4, 5] [4, 1, 3, 5, 2] = Some 0"
  "pearson_stat [3, 3, 3, 3, 3] [4, 1, 3, 5, 2] = None"
  "pearson_stat [4, 1, 3, 5, 2] [4, 1, 3, 5, 2] = Some 1"
  by (simp_all add: pearson_stat_def is_constant_def centered_def mean_def dot_def clip_def
        Let_def)

lemma constant_column_pairs:
  fixes st
  defines "st \<equiv> \<lparr>df = constant_column_frame, time_col = None, batch_col = None,
      numeric_cols = [''A'', ''B'', ''C'', ''D''], categorical_cols = []\<rparr>"
  shows "analyze_pair st ''A'' ''B'' = Inr (Some (undefined_pair ''A'' ''B''))"
    and "analyze_pair st ''A'' ''C'' = Inr (Some (defined_pair ''A'' ''C'' 0))"
    and "analyze_pair st ''A'' ''D'' = Inr (Some (defined_pair ''A'' ''D'' 0))"
    and "analyze_pair st ''B'' ''C'' = Inr (Some (undefined_pair ''B'' ''C''))"
    and "analyze_pair st ''B'' ''D'' = Inr (Some (undefined_pair ''B'' ''D''))"
    and "analyze_pair st ''C'' ''D'' = Inr (Some (defined_pair ''C'' ''D'' 1))"
  by (simp_all add: st_def analyze_pair_def get_column_def constant_column_frame_def as_float_def
        compute_correlations_value compute_lagged_correlation_runs clean_pairs_def
        constant_column_ranks constant_column_pearson pair_stability_def truthy_def
        undefined_pair_def defined_pair_def)

text \<open>
  C6, the part that the code does not keep. The claim, like the comment
  \<^verbatim>\<open># Sort by absolute correlation strength\<close> above the sort, says that the relationship
  list is in descending order of \<open>|r|\<close>. A constant column makes the coefficient of each of
  its pairs NaN while the pair stays available, so it is kept, and its sort key is NaN. On
  the frame of four columns \<open>A, B, C, D\<close> with \<open>B\<close> constant, \<open>A\<close> uncorrelated with
  \<open>C = D\<close>, no key is smaller than its predecessor in the reversed list, the sort leaves
  the list in loop order, and the pair \<open>(C, D)\<close> with \<open>|r| = 1\<close> comes last, after two pairs with
  \<open>|r| = 0\<close>.
\<close>

theorem relationships_not_sorted_with_constant_column:
  "analyze_relationships (infer_columns no_parse (init constant_column_frame))
     = Inr (Some [undefined_pair ''A'' ''B'', defined_pair ''A'' ''C'' 0, defined_pair ''A'' ''D'' 0,
            undefined_pair ''B'' ''C'', undefined_pair ''B'' ''D'', defined_pair ''C'' ''D'' 1])
   \<and> map strength [undefined_pair ''A'' ''B'', defined_pair ''A'' ''C'' 0, defined_pair ''A'' ''D'' 0,
            undefined_pair ''B'' ''C'', undefined_pair ''B'' ''D'', defined_pair ''C'' ''D'' 1]
       = [None, Some 0, Some 0, None, None, Some 1]"
  unfolding constant_column_roles
  by (simp add: analyze_relationships_def constant_column_pairs sort_reverse_py_def
        sort_ascending_py_def strength_def float_lt_def undefined_pair_def defined_pair_def)

end
